theory Spec2Isabelle
  imports Complex_Main
begin

section \<open>Document state shared by the page scripts\<close>

text \<open>
  Elements are identified by natural numbers (object identity of a DOM node).  The
  scripts only ever touch the \<open>classList\<close> of an element through \<open>add\<close>,
  \<open>remove\<close>, \<open>toggle\<close> and \<open>contains\<close>, so the class list of an element is its
  set of class names, and the store maps every element to that set.
\<close>

type_synonym elem = nat

type_synonym classes = "elem \<Rightarrow> string set"

definition cl_contains :: "elem \<Rightarrow> string \<Rightarrow> classes \<Rightarrow> bool" where
  "cl_contains e c cs = (c \<in> cs e)"

definition cl_add :: "elem \<Rightarrow> string \<Rightarrow> classes \<Rightarrow> classes" where
  "cl_add e c cs = cs(e := insert c (cs e))"

definition cl_remove :: "elem \<Rightarrow> string \<Rightarrow> classes \<Rightarrow> classes" where
  "cl_remove e c cs = cs(e := cs e - {c})"

definition cl_toggle :: "elem \<Rightarrow> string \<Rightarrow> classes \<Rightarrow> classes" where
  "cl_toggle e c cs = (if cl_contains e c cs then cl_remove e c cs else cl_add e c cs)"

text \<open>
  A lookup such as \<open>getElementById\<close> or \<open>querySelector\<close> yields \<open>null\<close> when nothing
  matches; a property access on \<open>null\<close> throws a \<open>TypeError\<close>.  A throw aborts the
  running handler but keeps every mutation made before it, so an outcome carries the
  state in both cases.
\<close>

datatype error = TypeError | SyntaxError

datatype 'a outcome = Returned 'a | Threw error 'a

fun state_of :: "'a outcome \<Rightarrow> 'a" where
  "state_of (Returned s) = s"
| "state_of (Threw e s) = s"

fun and_then :: "'a outcome \<Rightarrow> ('a \<Rightarrow> 'a outcome) \<Rightarrow> 'a outcome" where
  "and_then (Returned s) f = f s"
| "and_then (Threw e s) f = Threw e s"

fun deref :: "elem option \<Rightarrow> (elem \<Rightarrow> 'a \<Rightarrow> 'a) \<Rightarrow> 'a \<Rightarrow> 'a outcome" where
  "deref None f s = Threw TypeError s"
| "deref (Some e) f s = Returned (f e s)"


section \<open>Navigation menu (script.js, part 1)\<close>

text \<open>
  The four cached elements are parameters: \<open>hamburgerIcon\<close> and \<open>navOverlay\<close> come
  from \<open>getElementById\<close>, \<open>nav\<close> from \<open>querySelector\<close>, \<open>body\<close> from
  \<open>document.body\<close>; each may be \<open>null\<close>.  (The listeners below are registered only
  when \<open>hamburgerBtn\<close> exists, the overlay's own listener only when \<open>navOverlay\<close>
  exists as well.)
\<close>

definition toggleMenu ::
  "elem option \<Rightarrow> elem option \<Rightarrow> elem option \<Rightarrow> elem option \<Rightarrow> classes \<Rightarrow> classes outcome" where
  "toggleMenu hamburgerIcon navOverlay nav body cs =
     and_then (and_then (and_then
       (deref hamburgerIcon (\<lambda>e. cl_toggle e ''active'') cs)
       (deref navOverlay (\<lambda>e. cl_toggle e ''active'')))
       (deref nav (\<lambda>e. cl_toggle e ''nav-active'')))
       (deref body (\<lambda>e. cl_toggle e ''menu-open''))"

definition closeMenu ::
  "elem option \<Rightarrow> elem option \<Rightarrow> elem option \<Rightarrow> elem option \<Rightarrow> classes \<Rightarrow> classes outcome" where
  "closeMenu hamburgerIcon navOverlay nav body cs =
     (case navOverlay of
        None \<Rightarrow> Threw TypeError cs
      | Some ov \<Rightarrow>
          if cl_contains ov ''active'' cs
          then toggleMenu hamburgerIcon navOverlay nav body cs
          else Returned cs)"

text \<open>
  The listeners: a click on the hamburger button toggles; a click on a menu link
  closes; a key press closes when the key is Escape; a click delivered to the overlay
  closes when the event target is the overlay itself.
\<close>

datatype menu_event =
    ButtonClick
  | LinkClick
  | KeyDown string
  | OverlayClick elem

fun menu_listener ::
  "elem option \<Rightarrow> elem option \<Rightarrow> elem option \<Rightarrow> elem option \<Rightarrow>
   menu_event \<Rightarrow> classes \<Rightarrow> classes outcome" where
  "menu_listener hamburgerIcon navOverlay nav body ButtonClick cs =
     toggleMenu hamburgerIcon navOverlay nav body cs"
| "menu_listener hamburgerIcon navOverlay nav body LinkClick cs =
     closeMenu hamburgerIcon navOverlay nav body cs"
| "menu_listener hamburgerIcon navOverlay nav body (KeyDown key) cs =
     (if key = ''Escape'' then closeMenu hamburgerIcon navOverlay nav body cs
      else Returned cs)"
| "menu_listener hamburgerIcon navOverlay nav body (OverlayClick target) cs =
     (if Some target = navOverlay then closeMenu hamburgerIcon navOverlay nav body cs
      else Returned cs)"

text \<open>Events are handled one after the other; a throwing handler does not stop later events.\<close>

fun menu_run ::
  "elem option \<Rightarrow> elem option \<Rightarrow> elem option \<Rightarrow> elem option \<Rightarrow>
   menu_event list \<Rightarrow> classes \<Rightarrow> classes" where
  "menu_run hamburgerIcon navOverlay nav body [] cs = cs"
| "menu_run hamburgerIcon navOverlay nav body (ev # evs) cs =
     menu_run hamburgerIcon navOverlay nav body evs
       (state_of (menu_listener hamburgerIcon navOverlay nav body ev cs))"

fun is_close_event :: "menu_event \<Rightarrow> bool" where
  "is_close_event ButtonClick = False"
| "is_close_event _ = True"


section \<open>Navbar scroll effect (script.js, part 2)\<close>

text \<open>
  \<open>offsetTop\<close> and \<open>offsetHeight\<close> are integers supplied by layout; the scroll
  offsets are numbers (possibly fractional).  Halving an integer and adding an integer is
  exact in the script's arithmetic, so the numbers are rationals here.  \<open>scrollY\<close> is
  \<open>None\<close> where the property is undefined; \<open>pageYOffset\<close> is its older alias.
\<close>

record window =
  scrollY :: "rat option"
  pageYOffset :: rat

record layout =
  offsetTop :: "elem \<Rightarrow> int"
  offsetHeight :: "elem \<Rightarrow> int"

record dom =
  classList :: classes

record navbar_state = dom +
  console :: "string list"

text \<open>\<open>a || b\<close> on numbers: \<open>a\<close> when it is defined and non-zero, otherwise \<open>b\<close>.\<close>

fun js_or :: "rat option \<Rightarrow> rat \<Rightarrow> rat" where
  "js_or None b = b"
| "js_or (Some a) b = (if a \<noteq> 0 then a else b)"

definition heroHalfway :: "layout \<Rightarrow> elem \<Rightarrow> rat" where
  "heroHalfway l hero = of_int (offsetTop l hero) + of_int (offsetHeight l hero) * (1 / 2)"

definition scrollPosition :: "window \<Rightarrow> rat" where
  "scrollPosition w = js_or (scrollY w) (pageYOffset w)"

definition handleNavbarScroll ::
  "elem option \<Rightarrow> elem option \<Rightarrow> layout \<Rightarrow> window \<Rightarrow> navbar_state \<Rightarrow> navbar_state outcome" where
  "handleNavbarScroll nav heroLandingSection l w st =
     (case heroLandingSection of
        None \<Rightarrow> Returned (st\<lparr>console := console st @ [''heroLanding section not found'']\<rparr>)
      | Some hero \<Rightarrow>
          if scrollPosition w \<ge> heroHalfway l hero
          then deref nav (\<lambda>n s. s\<lparr>classList := cl_add n ''nav-shrink'' (classList s)\<rparr>) st
          else deref nav (\<lambda>n s. s\<lparr>classList := cl_remove n ''nav-shrink'' (classList s)\<rparr>) st)"

text \<open>
  The handler is registered for scroll, DOMContentLoaded and resize; each of these events
  finds the layout and the window as they are at that moment.
\<close>

fun navbar_run ::
  "elem option \<Rightarrow> elem option \<Rightarrow> (layout \<times> window) list \<Rightarrow> navbar_state \<Rightarrow> navbar_state" where
  "navbar_run nav heroLandingSection [] st = st"
| "navbar_run nav heroLandingSection (lw # lws) st =
     navbar_run nav heroLandingSection lws
       (state_of (handleNavbarScroll nav heroLandingSection (fst lw) (snd lw) st))"


section \<open>Viewport section observer (script.js, part 5)\<close>

text \<open>
  An intersection entry, as the browser hands it to an observer callback.  The ratio is a
  number between 0 and 1; a floating-point ratio is above the script's literal \<open>0.7\<close>
  exactly when it is above seven tenths, since no floating-point number lies strictly
  between that literal and seven tenths.
\<close>

record entry =
  target :: elem
  isIntersecting :: bool
  intersectionRatio :: rat

fun remove_from_all :: "elem list \<Rightarrow> string \<Rightarrow> classes \<Rightarrow> classes" where
  "remove_from_all [] c cs = cs"
| "remove_from_all (b # bs) c cs = remove_from_all bs c (cl_remove b c cs)"

definition exceeds :: "entry \<Rightarrow> bool" where
  "exceeds en = (isIntersecting en \<and> intersectionRatio en > 7 / 10)"

fun handleIntersection :: "elem list \<Rightarrow> entry list \<Rightarrow> classes \<Rightarrow> classes" where
  "handleIntersection blocks [] cs = cs"
| "handleIntersection blocks (en # entries) cs =
     handleIntersection blocks entries
       (if isIntersecting en \<and> intersectionRatio en > 7 / 10
        then cl_add (target en) ''vsect-active'' (remove_from_all blocks ''vsect-active'' cs)
        else cl_remove (target en) ''vsect-active'' cs)"

text \<open>The observed sections that carry the active marker.\<close>

definition active_blocks :: "elem list \<Rightarrow> classes \<Rightarrow> elem set" where
  "active_blocks blocks cs = set (filter (\<lambda>b. cl_contains b ''vsect-active'' cs) blocks)"


section \<open>Animation system (animations.js)\<close>

text \<open>
  The four observers; the state of an observer is its set of observation targets.  The
  browser reports an entry to an observer's callback only for a current target of that
  observer.
\<close>

record anim = dom +
  animateObserver :: "elem set"
  animateRepeatObserver :: "elem set"
  lineObserver :: "elem set"
  lineRepeatObserver :: "elem set"

fun handleAnimateEntries :: "entry list \<Rightarrow> anim \<Rightarrow> anim" where
  "handleAnimateEntries [] st = st"
| "handleAnimateEntries (en # entries) st =
     handleAnimateEntries entries
       (if isIntersecting en
        then st\<lparr>classList := cl_add (target en) ''in-view'' (classList st),
                animateObserver := animateObserver st - {target en}\<rparr>
        else st)"

fun handleAnimateRepeatEntries :: "entry list \<Rightarrow> anim \<Rightarrow> anim" where
  "handleAnimateRepeatEntries [] st = st"
| "handleAnimateRepeatEntries (en # entries) st =
     handleAnimateRepeatEntries entries
       (if isIntersecting en
        then st\<lparr>classList := cl_add (target en) ''in-view'' (classList st)\<rparr>
        else st\<lparr>classList := cl_remove (target en) ''in-view'' (classList st)\<rparr>)"

fun handleLineEntries :: "entry list \<Rightarrow> anim \<Rightarrow> anim" where
  "handleLineEntries [] st = st"
| "handleLineEntries (en # entries) st =
     handleLineEntries entries
       (if isIntersecting en
        then st\<lparr>classList := cl_add (target en) ''in-view'' (classList st),
                lineObserver := lineObserver st - {target en}\<rparr>
        else st)"

fun handleLineRepeatEntries :: "entry list \<Rightarrow> anim \<Rightarrow> anim" where
  "handleLineRepeatEntries [] st = st"
| "handleLineRepeatEntries (en # entries) st =
     handleLineRepeatEntries entries
       (if isIntersecting en
        then st\<lparr>classList := cl_add (target en) ''in-view'' (classList st)\<rparr>
        else st\<lparr>classList := cl_remove (target en) ''in-view'' (classList st)\<rparr>)"

text \<open>
  \<open>observeElements\<close> over the elements of the document (in document order),
  \<open>refresh\<close> and \<open>destroy\<close>.
\<close>

definition has_class :: "classes \<Rightarrow> string \<Rightarrow> elem \<Rightarrow> bool" where
  "has_class cs c e = (c \<in> cs e)"

definition observeElements :: "elem list \<Rightarrow> anim \<Rightarrow> anim" where
  "observeElements document st =
     st\<lparr>animateObserver := animateObserver st \<union>
            set (filter (has_class (classList st) ''animate'') document),
        animateRepeatObserver := animateRepeatObserver st \<union>
            set (filter (has_class (classList st) ''animate-repeat'') document),
        lineObserver := lineObserver st \<union>
            set (filter (\<lambda>e. has_class (classList st) ''line-animate'' e
                           \<or> has_class (classList st) ''line-horizontal'' e
                           \<or> has_class (classList st) ''line-vertical'' e) document),
        lineRepeatObserver := lineRepeatObserver st \<union>
            set (filter (has_class (classList st) ''line-animate-repeat'') document)\<rparr>"

definition destroy :: "anim \<Rightarrow> anim" where
  "destroy st = st\<lparr>animateObserver := {}, animateRepeatObserver := {},
                   lineObserver := {}, lineRepeatObserver := {}\<rparr>"

definition refresh :: "elem list \<Rightarrow> anim \<Rightarrow> anim" where
  "refresh document st = observeElements document (destroy st)"

text \<open>
  A notification: the browser calls the callback of one observer with the entries it has
  queued, which are entries of that observer's current targets only.
\<close>

datatype observer = Animate | AnimateRepeat | Line | LineRepeat

fun targets_of :: "observer \<Rightarrow> anim \<Rightarrow> elem set" where
  "targets_of Animate st = animateObserver st"
| "targets_of AnimateRepeat st = animateRepeatObserver st"
| "targets_of Line st = lineObserver st"
| "targets_of LineRepeat st = lineRepeatObserver st"

definition delivered :: "observer \<Rightarrow> entry list \<Rightarrow> anim \<Rightarrow> entry list" where
  "delivered ob entries st = filter (\<lambda>en. target en \<in> targets_of ob st) entries"

fun callback :: "observer \<Rightarrow> entry list \<Rightarrow> anim \<Rightarrow> anim" where
  "callback Animate entries st = handleAnimateEntries entries st"
| "callback AnimateRepeat entries st = handleAnimateRepeatEntries entries st"
| "callback Line entries st = handleLineEntries entries st"
| "callback LineRepeat entries st = handleLineRepeatEntries entries st"

definition notify :: "observer \<times> entry list \<Rightarrow> anim \<Rightarrow> anim" where
  "notify n st = callback (fst n) (delivered (fst n) (snd n) st) st"

fun notify_all :: "(observer \<times> entry list) list \<Rightarrow> anim \<Rightarrow> anim" where
  "notify_all [] st = st"
| "notify_all (n # ns) st = notify_all ns (notify n st)"

text \<open>The most recent report about an element in a sequence of entries.\<close>

definition last_report :: "elem \<Rightarrow> entry list \<Rightarrow> bool option" where
  "last_report e entries =
     map_option isIntersecting (find (\<lambda>en. target en = e) (rev entries))"

text \<open>A sequence of callbacks of one repeatable handler, batch after batch.\<close>

fun repeat_callbacks ::
  "(entry list \<Rightarrow> anim \<Rightarrow> anim) \<Rightarrow> entry list list \<Rightarrow> anim \<Rightarrow> anim" where
  "repeat_callbacks h [] st = st"
| "repeat_callbacks h (b # bs) st = repeat_callbacks h bs (h b st)"


section \<open>Document structure, timers and the page state (script.js, parts 3 and 4)\<close>

text \<open>
  The element structure is a forest of trees of element identities, in document order.
  Text nodes play no part in the scripts and are left out.
\<close>

datatype dtree = El (elem_of: elem) (kids: "dtree list")

fun elems :: "dtree \<Rightarrow> elem list" where
  "elems (El e ks) = e # concat (map elems ks)"

fun subtrees :: "dtree \<Rightarrow> dtree list" where
  "subtrees (El e ks) = El e ks # concat (map subtrees ks)"

definition all_subtrees :: "dtree list \<Rightarrow> dtree list" where
  "all_subtrees f = concat (map subtrees f)"

definition all_elems :: "dtree list \<Rightarrow> elem list" where
  "all_elems f = concat (map elems f)"

text \<open>The chain from an element up to the root of its tree, the element first.\<close>

fun path_to :: "elem \<Rightarrow> dtree \<Rightarrow> elem list" where
  "path_to x (El e ks) =
     (if e = x then [e]
      else (case concat (map (path_to x) ks) of [] \<Rightarrow> [] | y # ys \<Rightarrow> (y # ys) @ [e]))"

fun remove_node :: "elem \<Rightarrow> dtree \<Rightarrow> dtree" where
  "remove_node x (El e ks) = El e (map (remove_node x) (filter (\<lambda>k. elem_of k \<noteq> x) ks))"

fun set_children :: "elem \<Rightarrow> dtree list \<Rightarrow> dtree \<Rightarrow> dtree" where
  "set_children a new (El e ks) =
     (if e = a then El e new else El e (map (set_children a new) ks))"

fun append_child :: "elem \<Rightarrow> dtree \<Rightarrow> dtree \<Rightarrow> dtree" where
  "append_child a c (El e ks) =
     (if e = a then El e (ks @ [c]) else El e (map (append_child a c) ks))"

fun shift :: "nat \<Rightarrow> dtree \<Rightarrow> dtree" where
  "shift b (El e ks) = El (b + e) (map (shift b) ks)"

text \<open>
  Elements below an element of class \<open>a\<close> that carry class \<open>c\<close> (the selector
  \<open>.a .c\<close>), in document order.
\<close>

fun below :: "(elem \<Rightarrow> bool) \<Rightarrow> (elem \<Rightarrow> bool) \<Rightarrow> bool \<Rightarrow> dtree \<Rightarrow> dtree list" where
  "below A P inside (El e ks) =
     (if inside \<and> P e then [El e ks] else []) @
     concat (map (below A P (inside \<or> A e)) ks)"

text \<open>The callbacks handed to \<open>setTimeout\<close>, each with the variables it closes over.\<close>

datatype task =
    FadeOut elem
  | SlideUp elem
  | RemoveFromDOM elem
  | TriggerAnimations elem
  | ResizeCheck
  | InitialAnimations

text \<open>
  The page: the document (\<open>detached\<close> holds the trees that are no longer, or not yet,
  in the document but still referenced), the two data attributes the tabs read, the
  clock and the pending timers as (identifier, due time, callback), the viewport width,
  and the variables of the tabs module's closure: \<open>serviceTabs\<close>,
  \<open>desktopContentArea\<close>, \<open>isDesktop\<close> and \<open>resizeTimer\<close>; \<open>listening\<close> says
  that the module has registered its click and resize listeners.

  \<open>installed\<close> says that script.js has run to its end, so that the listeners its
  parts 2 to 5 register at the top level (among them the DOMContentLoaded listener of
  the tabs and the load listener of the preload overlay) exist.

  \<open>selectorEngine\<close> is the browser's selector parser, for the selector texts whose
  meaning this theory does not spell out: given the text and the document as it is
  (classes, structure, the two data attributes), either the \<open>SyntaxError\<close> the browser
  throws or the first matching element, if any.
\<close>

type_synonym selector_engine =
  "string \<Rightarrow> classes \<Rightarrow> dtree list \<Rightarrow> (elem \<Rightarrow> string option) \<Rightarrow> (elem \<Rightarrow> string option)
     \<Rightarrow> error + dtree option"

record page = dom +
  document :: "dtree list"
  detached :: "dtree list"
  dataTab :: "elem \<Rightarrow> string option"
  dataContent :: "elem \<Rightarrow> string option"
  fresh :: nat
  now :: nat
  timers :: "(nat \<times> nat \<times> task) list"
  nextTimer :: nat
  innerWidth :: int
  serviceTabs :: "elem list"
  desktopContentArea :: "elem option"
  isDesktop :: bool
  resizeTimer :: "nat option"
  listening :: bool
  installed :: bool
  selectorEngine :: selector_engine

subsection \<open>Queries\<close>

definition querySelectorAll :: "(elem \<Rightarrow> bool) \<Rightarrow> page \<Rightarrow> dtree list" where
  "querySelectorAll P p = filter (\<lambda>t. P (elem_of t)) (all_subtrees (document p))"

definition querySelector :: "(elem \<Rightarrow> bool) \<Rightarrow> page \<Rightarrow> dtree option" where
  "querySelector P p = find (\<lambda>t. P (elem_of t)) (all_subtrees (document p))"

definition node_of :: "elem \<Rightarrow> page \<Rightarrow> dtree option" where
  "node_of x p = find (\<lambda>t. elem_of t = x) (all_subtrees (document p @ detached p))"

text \<open>\<open>x.querySelectorAll\<close> and \<open>x.querySelector\<close>: proper descendants of \<open>x\<close> only.\<close>

definition descendants :: "elem \<Rightarrow> page \<Rightarrow> elem list" where
  "descendants x p =
     (case node_of x p of None \<Rightarrow> [] | Some t \<Rightarrow> all_elems (kids t))"

definition querySelectorAll_in :: "elem \<Rightarrow> string \<Rightarrow> page \<Rightarrow> elem list" where
  "querySelectorAll_in x c p = filter (has_class (classList p) c) (descendants x p)"

definition querySelector_in :: "elem \<Rightarrow> string \<Rightarrow> page \<Rightarrow> elem option" where
  "querySelector_in x c p = find (has_class (classList p) c) (descendants x p)"

definition closest :: "string \<Rightarrow> elem \<Rightarrow> page \<Rightarrow> elem option" where
  "closest c x p =
     find (has_class (classList p) c) (concat (map (path_to x) (document p @ detached p)))"

subsection \<open>Timers\<close>

definition setTimeout :: "task \<Rightarrow> nat \<Rightarrow> page \<Rightarrow> nat \<times> page" where
  "setTimeout k delay p =
     (nextTimer p,
      p\<lparr>timers := timers p @ [(nextTimer p, now p + delay, k)],
        nextTimer := Suc (nextTimer p)\<rparr>)"

definition clearTimeout :: "nat option \<Rightarrow> page \<Rightarrow> page" where
  "clearTimeout i p =
     (case i of None \<Rightarrow> p
      | Some n \<Rightarrow> p\<lparr>timers := filter (\<lambda>t. fst t \<noteq> n) (timers p)\<rparr>)"

text \<open>The pending timer that is due first; among equal due times, the one set first.\<close>

fun earliest :: "(nat \<times> nat \<times> task) list \<Rightarrow> (nat \<times> nat \<times> task) option" where
  "earliest [] = None"
| "earliest (t # ts) =
     (case earliest ts of
        None \<Rightarrow> Some t
      | Some u \<Rightarrow> if fst (snd u) < fst (snd t) then Some u else Some t)"

subsection \<open>Node operations\<close>

definition copy_to :: "nat \<Rightarrow> elem list \<Rightarrow> (elem \<Rightarrow> 'a) \<Rightarrow> (elem \<Rightarrow> 'a)" where
  "copy_to b es f = fold (\<lambda>e g. g(b + e := f e)) es f"

text \<open>
  \<open>cloneNode(true)\<close>: a copy of the subtree made of new elements with the same classes
  and attributes, not yet in the document.  The copy of element \<open>e\<close> is element
  \<open>fresh + e\<close>.
\<close>

definition cloneNode :: "dtree \<Rightarrow> page \<Rightarrow> dtree \<times> page" where
  "cloneNode t p =
     (let b = fresh p; es = elems t in
      (shift b t,
       p\<lparr>classList := copy_to b es (classList p),
         dataTab := copy_to b es (dataTab p),
         dataContent := copy_to b es (dataContent p),
         fresh := b + Suc (fold max es 0),
         detached := detached p @ [shift b t]\<rparr>))"

text \<open>\<open>a.innerHTML = ''\<close>: the children of \<open>a\<close> leave the document.\<close>

definition clear_children :: "elem \<Rightarrow> page \<Rightarrow> page" where
  "clear_children a p =
     (let old = (case node_of a p of None \<Rightarrow> [] | Some t \<Rightarrow> kids t) in
      p\<lparr>document := map (set_children a []) (document p),
        detached := map (set_children a []) (detached p) @ old\<rparr>)"

text \<open>\<open>a.appendChild(c)\<close> for a tree \<open>c\<close> that is not in the document.\<close>

definition appendChild :: "elem \<Rightarrow> dtree \<Rightarrow> page \<Rightarrow> page" where
  "appendChild a c p =
     p\<lparr>document := map (append_child a c) (document p),
       detached := map (append_child a c) (filter (\<lambda>t. elem_of t \<noteq> elem_of c) (detached p))\<rparr>"

text \<open>\<open>x.remove()\<close>: the subtree of \<open>x\<close> leaves the document.\<close>

definition remove_elem :: "elem \<Rightarrow> page \<Rightarrow> page" where
  "remove_elem x p =
     p\<lparr>document := map (remove_node x) (filter (\<lambda>t. elem_of t \<noteq> x) (document p)),
       detached := detached p @ filter (\<lambda>t. elem_of t = x) (all_subtrees (document p))\<rparr>"

definition add_class :: "elem \<Rightarrow> string \<Rightarrow> page \<Rightarrow> page" where
  "add_class e c p = p\<lparr>classList := cl_add e c (classList p)\<rparr>"

definition remove_class :: "elem \<Rightarrow> string \<Rightarrow> page \<Rightarrow> page" where
  "remove_class e c p = p\<lparr>classList := cl_remove e c (classList p)\<rparr>"


section \<open>Services tabs (script.js, part 3)\<close>

definition triggerAnimations :: "elem \<Rightarrow> page \<Rightarrow> page" where
  "triggerAnimations content p = snd (setTimeout (TriggerAnimations content) 50 p)"

fun restart_each :: "elem list \<Rightarrow> classes \<Rightarrow> classes" where
  "restart_each [] cs = cs"
| "restart_each (el # els) cs =
     restart_each els (cl_add el ''in-view'' (cl_remove el ''in-view'' cs))"

fun add_to_each :: "elem list \<Rightarrow> string \<Rightarrow> classes \<Rightarrow> classes" where
  "add_to_each [] c cs = cs"
| "add_to_each (el # els) c cs = add_to_each els c (cl_add el c cs)"

definition active_content :: "page \<Rightarrow> elem \<Rightarrow> bool" where
  "active_content p e =
     (has_class (classList p) ''services-tab-content'' e \<and> has_class (classList p) ''active'' e)"

definition handleLayout :: "page \<Rightarrow> page outcome" where
  "handleLayout p0 =
     (let p = p0\<lparr>isDesktop := (innerWidth p0 \<ge> 768)\<rparr> in
      if isDesktop p then
        (case querySelector (active_content p) p of
           None \<Rightarrow> Returned p
         | Some activeContent \<Rightarrow>
             (let (clone, p1) = cloneNode activeContent p in
              case desktopContentArea p1 of
                None \<Rightarrow> Threw TypeError p1
              | Some area \<Rightarrow> Returned (appendChild area clone (clear_children area p1))))
      else Returned p)"

text \<open>
  The selector text \<open>[data-content="..."]\<close> is built from the tab's identifier
  (\<open>getAttribute\<close> gives \<open>null\<close>, printed as \<open>null\<close>, when the attribute is missing).
  \<^item> For an identifier without double quote, backslash, line break (line feed, carriage
    return, form feed) and null character, the text is the attribute test: it selects
    the first element of the document whose \<open>data-content\<close> is the identifier.
  \<^item> For an identifier with a line break and neither double quote nor backslash, the
    quoted string of the text is broken by the line break and the browser throws a
    \<open>SyntaxError\<close>.
  \<^item> For every other identifier (a double quote ends the string early, a backslash
    starts an escape, a null character is replaced) the browser's selector parser
    decides, applied to the text.
\<close>

definition simple_ident :: "string \<Rightarrow> bool" where
  "simple_ident s =
     (CHR 0x22 \<notin> set s \<and> CHR 0x5C \<notin> set s \<and> CHR 0x0A \<notin> set s \<and>
      CHR 0x0D \<notin> set s \<and> CHR 0x0C \<notin> set s \<and> CHR 0x00 \<notin> set s)"

definition broken_string :: "string \<Rightarrow> bool" where
  "broken_string s =
     (CHR 0x22 \<notin> set s \<and> CHR 0x5C \<notin> set s \<and>
      (CHR 0x0A \<in> set s \<or> CHR 0x0D \<in> set s \<or> CHR 0x0C \<in> set s))"

definition selector_text :: "string \<Rightarrow> string" where
  "selector_text s = ''[data-content='' @ [CHR 0x22] @ s @ [CHR 0x22] @ '']''"

definition query_data_content :: "string \<Rightarrow> page \<Rightarrow> error + dtree option" where
  "query_data_content wanted p =
     (if simple_ident wanted then Inr (querySelector (\<lambda>e. dataContent p e = Some wanted) p)
      else if broken_string wanted then Inl SyntaxError
      else selectorEngine p (selector_text wanted)
             (classList p) (document p) (dataTab p) (dataContent p))"

definition handleDesktopTab :: "elem \<Rightarrow> string option \<Rightarrow> page \<Rightarrow> page outcome" where
  "handleDesktopTab tab targetTab p =
     (let p1 = add_class tab ''active''
                 (p\<lparr>classList := remove_from_all (serviceTabs p) ''active'' (classList p)\<rparr>);
          wanted = (case targetTab of None \<Rightarrow> ''null'' | Some s \<Rightarrow> s)
      in case query_data_content wanted p1 of
           Inl err \<Rightarrow> Threw err p1
         | Inr None \<Rightarrow> Returned p1
         | Inr (Some matchingContent) \<Rightarrow>
             (let (clone, p2) = cloneNode matchingContent p1;
                  p3 = add_class (elem_of clone) ''active'' p2
              in case desktopContentArea p3 of
                   None \<Rightarrow> Threw TypeError p3
                 | Some area \<Rightarrow>
                     Returned (triggerAnimations (elem_of clone)
                                (appendChild area clone (clear_children area p3)))))"

text \<open>The loop of \<open>handleMobileTab\<close> that closes every tab but the clicked one.\<close>

fun close_others :: "elem \<Rightarrow> elem list \<Rightarrow> page \<Rightarrow> page outcome" where
  "close_others tab [] p = Returned p"
| "close_others tab (otherTab # rest) p =
     (if otherTab \<noteq> tab then
        (case closest ''services-tab-container'' otherTab p of
           None \<Rightarrow> Threw TypeError p
         | Some otherContainer \<Rightarrow>
             (let otherContent = querySelector_in otherContainer ''services-tab-content'' p;
                  p1 = remove_class otherTab ''active'' p
              in case otherContent of
                   None \<Rightarrow> Threw TypeError p1
                 | Some oc \<Rightarrow> close_others tab rest (remove_class oc ''active'' p1)))
      else close_others tab rest p)"

definition handleMobileTab :: "elem \<Rightarrow> elem option \<Rightarrow> page \<Rightarrow> page outcome" where
  "handleMobileTab tab content p =
     (let isOpening = \<not> cl_contains tab ''active'' (classList p) in
      and_then (close_others tab (serviceTabs p) p)
        (\<lambda>p1. if isOpening then
                (let p2 = add_class tab ''active'' p1 in
                 case content of
                   None \<Rightarrow> Threw TypeError p2
                 | Some c \<Rightarrow> Returned (triggerAnimations c (add_class c ''active'' p2)))
              else
                (let p2 = remove_class tab ''active'' p1 in
                 case content of
                   None \<Rightarrow> Threw TypeError p2
                 | Some c \<Rightarrow> Returned (remove_class c ''active'' p2))))"

text \<open>The click listener of a tab (\<open>this\<close> is the tab).\<close>

definition tab_click :: "elem \<Rightarrow> page \<Rightarrow> page outcome" where
  "tab_click this p =
     (case closest ''services-tab-container'' this p of
        None \<Rightarrow> Threw TypeError p
      | Some container \<Rightarrow>
          (let content = querySelector_in container ''services-tab-content'' p;
               targetTab = dataTab p this
           in if isDesktop p then handleDesktopTab this targetTab p
              else handleMobileTab this content p))"

text \<open>The resize listener: cancel the pending check, schedule a new one in 250ms.\<close>

definition tabs_resize :: "page \<Rightarrow> page" where
  "tabs_resize p =
     (let (i, p1) = setTimeout ResizeCheck 250 (clearTimeout (resizeTimer p) p)
      in p1\<lparr>resizeTimer := Some i\<rparr>)"

definition resize_check :: "page \<Rightarrow> page outcome" where
  "resize_check p =
     (let wasDesktop = isDesktop p;
          p1 = p\<lparr>isDesktop := (innerWidth p \<ge> 768)\<rparr>
      in if wasDesktop \<noteq> isDesktop p1 then handleLayout p1 else Returned p1)"

definition run_TriggerAnimations :: "elem \<Rightarrow> page \<Rightarrow> page" where
  "run_TriggerAnimations content p =
     p\<lparr>classList := restart_each (querySelectorAll_in content ''animate-repeat'' p) (classList p)\<rparr>"

definition desktop_content :: "page \<Rightarrow> dtree option" where
  "desktop_content p =
     (case concat (map (below (has_class (classList p) ''services-content-desktop'')
                              (has_class (classList p) ''services-tab-content'') False)
                       (document p)) of
        [] \<Rightarrow> None
      | t # ts \<Rightarrow> Some t)"

definition show_in_view :: "dtree option \<Rightarrow> bool \<Rightarrow> page \<Rightarrow> page" where
  "show_in_view content live p =
     (case content of
        None \<Rightarrow> p
      | Some t \<Rightarrow>
          if live
          then p\<lparr>classList := add_to_each (querySelectorAll_in (elem_of t) ''animate-repeat'' p)
                                ''in-view'' (classList p)\<rparr>
          else p)"

definition initial_animations :: "page \<Rightarrow> page" where
  "initial_animations p =
     (let mobileContent = querySelector (active_content p) p;
          desktopContent = desktop_content p
      in show_in_view desktopContent (isDesktop p)
           (show_in_view mobileContent (\<not> isDesktop p) p))"

text \<open>The DOMContentLoaded listener of the tabs module.\<close>

definition tabs_init :: "page \<Rightarrow> page outcome" where
  "tabs_init p =
     (let p1 = p\<lparr>serviceTabs :=
                   map elem_of (querySelectorAll (has_class (classList p) ''services-tab'') p),
                 desktopContentArea :=
                   map_option elem_of
                     (querySelector (has_class (classList p) ''services-content-desktop'') p),
                 isDesktop := (innerWidth p \<ge> 768),
                 resizeTimer := None,
                 listening := True\<rparr>
      in and_then (handleLayout p1)
           (\<lambda>p2. Returned (snd (setTimeout InitialAnimations 200 p2))))"


text \<open>
  The content panel paired with a tab: the first \<open>.services-tab-content\<close> inside the
  tab's closest \<open>.services-tab-container\<close>, as the click listener and the closing loop
  look it up.
\<close>

definition content_of :: "elem \<Rightarrow> page \<Rightarrow> elem option" where
  "content_of tab p =
     (case closest ''services-tab-container'' tab p of
        None \<Rightarrow> None
      | Some container \<Rightarrow> querySelector_in container ''services-tab-content'' p)"

text \<open>
  The markup the accordion expects: every tab has a content panel, and no panel is itself
  one of the tabs.
\<close>

definition tabs_paired :: "page \<Rightarrow> bool" where
  "tabs_paired p =
     list_all (\<lambda>t. case content_of t p of
                      None \<Rightarrow> False
                    | Some c \<Rightarrow> c \<notin> set (serviceTabs p)) (serviceTabs p)"

definition tab_panels :: "page \<Rightarrow> elem list" where
  "tab_panels p =
     concat (map (\<lambda>t. case content_of t p of None \<Rightarrow> [] | Some c \<Rightarrow> [c]) (serviceTabs p))"

definition active_tabs :: "page \<Rightarrow> elem set" where
  "active_tabs p = set (filter (\<lambda>t. cl_contains t ''active'' (classList p)) (serviceTabs p))"

definition active_panels :: "page \<Rightarrow> elem set" where
  "active_panels p = set (filter (\<lambda>c. cl_contains c ''active'' (classList p)) (tab_panels p))"


section \<open>Preload overlay (script.js, part 4)\<close>

definition preload_onload :: "page \<Rightarrow> page" where
  "preload_onload p =
     (case querySelector (has_class (classList p) ''preload-overlay'') p of
        None \<Rightarrow> p
      | Some t \<Rightarrow>
          (let preloadOverlay = elem_of t;
               p1 = snd (setTimeout (FadeOut preloadOverlay) 500 p);
               p2 = snd (setTimeout (SlideUp preloadOverlay) 800 p1)
           in snd (setTimeout (RemoveFromDOM preloadOverlay) 1800 p2)))"


section \<open>Running script.js\<close>



section \<open>Events of the page\<close>

text \<open>
  An event reaches a listener only where one is registered: DOMContentLoaded and load
  on a page where script.js ran to its end, clicks and the tabs' resize handling once
  the tabs module has initialised.
\<close>

fun run_task :: "task \<Rightarrow> page \<Rightarrow> page outcome" where
  "run_task (FadeOut e) p = Returned (add_class e ''fade-out'' p)"
| "run_task (SlideUp e) p = Returned (add_class e ''hidden'' p)"
| "run_task (RemoveFromDOM e) p = Returned (remove_elem e p)"
| "run_task (TriggerAnimations content) p = Returned (run_TriggerAnimations content p)"
| "run_task ResizeCheck p = resize_check p"
| "run_task InitialAnimations p = Returned (initial_animations p)"

text \<open>
  The browser runs the pending timer that is due first; the clock is then at least at
  its due time.
\<close>

definition fire :: "page \<Rightarrow> page outcome" where
  "fire p =
     (case earliest (timers p) of
        None \<Rightarrow> Returned p
      | Some t \<Rightarrow>
          run_task (snd (snd t))
            (p\<lparr>timers := filter (\<lambda>u. fst u \<noteq> fst t) (timers p),
              now := max (now p) (fst (snd t))\<rparr>))"

datatype event =
    DOMContentLoaded
  | Load
  | Resize int
  | Click elem
  | Elapse nat
  | Fire

fun handle :: "event \<Rightarrow> page \<Rightarrow> page outcome" where
  "handle DOMContentLoaded p = (if installed p then tabs_init p else Returned p)"
| "handle Load p = Returned (if installed p then preload_onload p else p)"
| "handle (Resize w) p =
     (let p1 = p\<lparr>innerWidth := w\<rparr> in
      Returned (if listening p1 then tabs_resize p1 else p1))"
| "handle (Click tab) p =
     (if listening p \<and> tab \<in> set (serviceTabs p) then tab_click tab p else Returned p)"
| "handle (Elapse d) p = Returned (p\<lparr>now := now p + d\<rparr>)"
| "handle Fire p = fire p"

fun run :: "event list \<Rightarrow> page \<Rightarrow> page" where
  "run [] p = p"
| "run (ev # evs) p = run evs (state_of (handle ev p))"


text \<open>
  An event that runs the debounced resize check: the browser firing a timer while the
  check is the pending timer due first.  A sequence of events lies before the check
  fires when none of its events runs it (and none is the initialisation).
\<close>

fun fires_resize_check :: "event \<Rightarrow> page \<Rightarrow> bool" where
  "fires_resize_check Fire p =
     (case earliest (timers p) of None \<Rightarrow> False | Some t \<Rightarrow> snd (snd t) = ResizeCheck)"
| "fires_resize_check ev p = False"

fun before_debounce :: "event list \<Rightarrow> page \<Rightarrow> bool" where
  "before_debounce [] p = True"
| "before_debounce (ev # evs) p =
     (ev \<noteq> DOMContentLoaded \<and> \<not> fires_resize_check ev p \<and>
      before_debounce evs (state_of (handle ev p)))"


section \<open>A sample page\<close>

text \<open>
  A small page used to run the handlers on concrete input: the menu button (1) and the
  menu overlay (2), a preload overlay (10) with a logo (11), two tab containers (21 and
  31), each with its tab (22, 32) and its content panel (23, 33) holding one animated
  child (24, 34), and the desktop content area (40).  The viewport is narrow (500 units
  wide).  \<open>sample_page\<close> is the page once script.js has run to its end on it,
  \<open>sample_markup\<close> the same page before the script is evaluated.
\<close>

definition sample_page :: page where
  "sample_page =
     \<lparr>classList = (\<lambda>e. {})
         (10 := {''preload-overlay''},
          21 := {''services-tab-container''}, 22 := {''services-tab''},
          23 := {''services-tab-content''}, 24 := {''animate-repeat''},
          31 := {''services-tab-container''}, 32 := {''services-tab''},
          33 := {''services-tab-content''}, 34 := {''animate-repeat''},
          40 := {''services-content-desktop''}),
      document =
        [El 0 [El 1 [], El 2 [],
               El 10 [El 11 []],
               El 20 [El 21 [El 22 [], El 23 [El 24 []]],
                      El 31 [El 32 [], El 33 [El 34 []]],
                      El 40 []]]],
      detached = [],
      dataTab = Map.empty(22 := Some ''a'', 32 := Some ''b''),
      dataContent = Map.empty(23 := Some ''a'', 33 := Some ''b''),
      fresh = 100,
      now = 0,
      timers = [],
      nextTimer = 1,
      innerWidth = 500,
      serviceTabs = [],
      desktopContentArea = None,
      isDesktop = False,
      resizeTimer = None,
      listening = False,
      installed = True,
      selectorEngine = (\<lambda>text cs doc tabs contents. Inl SyntaxError)\<rparr>"



section \<open>Class-list lemmas\<close>

lemma cl_toggle_mem:
  "(c' \<in> cl_toggle e c cs e') = ((c' \<in> cs e') \<noteq> (e' = e \<and> c' = c))"
  by (auto simp: cl_toggle_def cl_add_def cl_remove_def cl_contains_def)

lemma classes_eqI: "(\<And>e c. (c \<in> cs e) = (c \<in> cs' e)) \<Longrightarrow> cs = (cs' :: classes)"
  by (auto simp: fun_eq_iff)

lemma toggle4_twice:
  "cl_toggle b cb (cl_toggle n cn (cl_toggle v cv (cl_toggle i ci
     (cl_toggle b cb (cl_toggle n cn (cl_toggle v cv (cl_toggle i ci cs))))))) = cs"
  by (rule classes_eqI) (simp add: cl_toggle_mem, blast)

lemma toggleMenu_Some:
  "toggleMenu (Some i) (Some v) (Some n) (Some b) cs =
     Returned (cl_toggle b ''menu-open'' (cl_toggle n ''nav-active''
       (cl_toggle v ''active'' (cl_toggle i ''active'' cs))))"
  by (simp add: toggleMenu_def)

section \<open>Navigation menu: closing and toggling\<close>

lemma toggle1_twice: "cl_toggle i ci (cl_toggle i ci cs) = cs"
  by (rule classes_eqI) (simp add: cl_toggle_mem, blast)

lemma toggle2_twice:
  "cl_toggle v cv (cl_toggle i ci (cl_toggle v cv (cl_toggle i ci cs))) = cs"
  by (rule classes_eqI) (simp add: cl_toggle_mem, blast)

lemma toggle3_twice:
  "cl_toggle n cn (cl_toggle v cv (cl_toggle i ci
     (cl_toggle n cn (cl_toggle v cv (cl_toggle i ci cs))))) = cs"
  by (rule classes_eqI) (simp add: cl_toggle_mem, blast)

lemma toggleMenu_twice_state:
  "state_of (toggleMenu hi no na bo (state_of (toggleMenu hi no na bo cs))) = cs"
  by (cases hi; cases no; cases na; cases bo)
     (simp_all add: toggleMenu_def toggle1_twice toggle2_twice toggle3_twice toggle4_twice)

lemma closeMenu_closed:
  "navOverlay = Some ov \<Longrightarrow> \<not> cl_contains ov ''active'' cs \<Longrightarrow>
   closeMenu hamburgerIcon navOverlay nav body cs = Returned cs"
  by (simp add: closeMenu_def)

text \<open>
  Claim C4.  Calling \<open>closeMenu\<close> while the menu is closed (the overlay has no
  \<open>active\<close> class) returns with every class list unchanged.  Calling \<open>toggleMenu\<close>
  twice in succession brings every class list back to what it was: whatever elements are
  missing, and, when the four elements exist, without a throw.
\<close>

theorem menu_close_noop_toggle_twice:
  "(navOverlay = Some ov \<and> \<not> cl_contains ov ''active'' cs \<longrightarrow>
      closeMenu hamburgerIcon navOverlay nav body cs = Returned cs)
   \<and> state_of (toggleMenu hamburgerIcon navOverlay nav body
        (state_of (toggleMenu hamburgerIcon navOverlay nav body cs))) = cs
   \<and> and_then (toggleMenu (Some i) (Some v) (Some n) (Some b) cs)
        (toggleMenu (Some i) (Some v) (Some n) (Some b)) = Returned cs"
  by (simp add: closeMenu_closed toggleMenu_twice_state toggleMenu_Some toggle4_twice)

theorem menu_close_noop_toggle_twice_witness:
  "closeMenu (Some 0) (Some 1) (Some 2) (Some 3) (\<lambda>e. {}) = Returned (\<lambda>e. {})
   \<and> and_then (toggleMenu (Some 0) (Some 1) (Some 2) (Some 3) (\<lambda>e. {''icon''}))
        (toggleMenu (Some 0) (Some 1) (Some 2) (Some 3)) = Returned (\<lambda>e. {''icon''})"
  using menu_close_noop_toggle_twice [of "Some 1" 1 "\<lambda>e. {}" "Some 0" "Some 2" "Some 3"]
        menu_close_noop_toggle_twice [of "Some 1" 1 "\<lambda>e. {''icon''}" "Some 0" "Some 2" "Some 3" 0 1 2 3]
  by (simp add: cl_contains_def)

lemma close_event_noop:
  "navOverlay = Some ov \<Longrightarrow> \<not> cl_contains ov ''active'' cs \<Longrightarrow> is_close_event ev \<Longrightarrow>
   menu_listener hamburgerIcon navOverlay nav body ev cs = Returned cs"
  by (cases ev) (simp_all add: closeMenu_closed)

lemma close_events_noop:
  "navOverlay = Some ov \<Longrightarrow> \<not> cl_contains ov ''active'' cs \<Longrightarrow> list_all is_close_event evs \<Longrightarrow>
   menu_run hamburgerIcon navOverlay nav body evs cs = cs"
  by (induction evs) (simp_all add: close_event_noop)

lemma toggleMenu_alters:
  "cl_contains n ''nav-active'' (state_of (toggleMenu (Some i) (Some ov) (Some n) (Some b) cs))
     \<noteq> cl_contains n ''nav-active'' cs"
  by (simp add: toggleMenu_Some cl_toggle_mem cl_contains_def)

lemma toggleMenu_overlay:
  "i \<noteq> ov \<Longrightarrow>
   cl_contains ov ''active'' (state_of (toggleMenu (Some i) (Some ov) (Some n) (Some b) cs))
     \<noteq> cl_contains ov ''active'' cs"
  by (simp add: toggleMenu_Some cl_toggle_mem cl_contains_def)

text \<open>
  Claim C9.  \<open>closeMenu\<close> looks at the overlay's \<open>active\<close> class only.  When the
  overlay lacks it, \<open>closeMenu\<close> and every sequence of closing events (menu link,
  Escape key, click on the overlay) leave all class lists as they are, whatever classes
  the icon, the navigation bar and the body carry.  \<open>toggleMenu\<close> does change such a
  configuration: the overlay becomes active.
\<close>

theorem close_reads_only_overlay:
  assumes "navOverlay = Some ov" and "\<not> cl_contains ov ''active'' cs"
  shows "closeMenu hamburgerIcon navOverlay nav body cs = Returned cs
     \<and> (list_all is_close_event evs \<longrightarrow>
           menu_run hamburgerIcon navOverlay nav body evs cs = cs)
     \<and> state_of (toggleMenu (Some i) navOverlay (Some n) (Some b) cs) \<noteq> cs
     \<and> (i \<noteq> ov \<longrightarrow>
           cl_contains ov ''active'' (state_of (toggleMenu (Some i) navOverlay (Some n) (Some b) cs)))"
proof -
  have "state_of (toggleMenu (Some i) navOverlay (Some n) (Some b) cs) \<noteq> cs"
    using toggleMenu_alters [of n i ov b cs] assms(1) by auto
  moreover have "i \<noteq> ov \<longrightarrow>
      cl_contains ov ''active'' (state_of (toggleMenu (Some i) navOverlay (Some n) (Some b) cs))"
    using toggleMenu_overlay [of i ov n b cs] assms by auto
  ultimately show ?thesis
    using assms by (simp add: closeMenu_closed close_events_noop)
qed

theorem close_reads_only_overlay_witness:
  "closeMenu (Some 0) (Some 1) (Some 2) (Some 3)
      ((\<lambda>e. {})(0 := {''active''}, 2 := {''nav-active''}, 3 := {''menu-open''}))
    = Returned ((\<lambda>e. {})(0 := {''active''}, 2 := {''nav-active''}, 3 := {''menu-open''}))
   \<and> menu_run (Some 0) (Some 1) (Some 2) (Some 3) [LinkClick, KeyDown ''Escape'', OverlayClick 1]
      ((\<lambda>e. {})(0 := {''active''}, 2 := {''nav-active''}, 3 := {''menu-open''}))
    = (\<lambda>e. {})(0 := {''active''}, 2 := {''nav-active''}, 3 := {''menu-open''})
   \<and> state_of (toggleMenu (Some 0) (Some 1) (Some 2) (Some 3)
      ((\<lambda>e. {})(0 := {''active''}, 2 := {''nav-active''}, 3 := {''menu-open''})))
    \<noteq> (\<lambda>e. {})(0 := {''active''}, 2 := {''nav-active''}, 3 := {''menu-open''})
   \<and> cl_contains 1 ''active'' (state_of (toggleMenu (Some 0) (Some 1) (Some 2) (Some 3)
      ((\<lambda>e. {})(0 := {''active''}, 2 := {''nav-active''}, 3 := {''menu-open''}))))"
  using close_reads_only_overlay [of "Some 1" 1
      "(\<lambda>e. {})(0 := {''active''}, 2 := {''nav-active''}, 3 := {''menu-open''})"
      "Some 0" "Some 2" "Some 3" "[LinkClick, KeyDown ''Escape'', OverlayClick 1]" 0 2 3]
  by (simp add: cl_contains_def)

section \<open>Navbar scroll effect: the threshold and the missing hero region\<close>

lemma scrollPosition_alias:
  "scrollY w = Some y \<Longrightarrow> pageYOffset w = y \<Longrightarrow> scrollPosition w = y"
  by (simp add: scrollPosition_def cl_contains_def cl_add_def cl_remove_def)

lemma handleNavbarScroll_hero:
  "handleNavbarScroll (Some n) (Some hero) l w st =
     Returned (st\<lparr>classList :=
       (if of_int (offsetTop l hero) + of_int (offsetHeight l hero) / 2 \<le> scrollPosition w
        then cl_add n ''nav-shrink'' (classList st)
        else cl_remove n ''nav-shrink'' (classList st))\<rparr>)"
  by (simp add: handleNavbarScroll_def heroHalfway_def)

text \<open>
  Claim C6.  With the hero region at offset \<open>T\<close> (\<open>offsetTop\<close>) and of height
  \<open>H\<close> (\<open>offsetHeight\<close>), every run of the handler leaves the navigation bar with
  the \<open>nav-shrink\<close> class exactly when the scroll position is at least \<open>T + H / 2\<close>,
  whatever the class was before (no hysteresis); the scroll position is the window's
  vertical scroll offset.
\<close>

theorem navbar_shrunk_iff_past_halfway:
  "handleNavbarScroll (Some n) (Some hero) l w st =
     Returned (st\<lparr>classList :=
       (if of_int (offsetTop l hero) + of_int (offsetHeight l hero) / 2 \<le> scrollPosition w
        then cl_add n ''nav-shrink'' (classList st)
        else cl_remove n ''nav-shrink'' (classList st))\<rparr>)
   \<and> cl_contains n ''nav-shrink''
        (classList (state_of (handleNavbarScroll (Some n) (Some hero) l w st)))
       = (of_int (offsetTop l hero) + of_int (offsetHeight l hero) / 2 \<le> scrollPosition w)
   \<and> (scrollY w = Some y \<and> pageYOffset w = y \<longrightarrow> scrollPosition w = y)"
  by (simp add: handleNavbarScroll_hero scrollPosition_alias cl_contains_def cl_add_def cl_remove_def)

theorem navbar_shrunk_iff_past_halfway_witness:
  "cl_contains 0 ''nav-shrink''
     (classList (state_of (handleNavbarScroll (Some 0) (Some 1)
        \<lparr>offsetTop = (\<lambda>e. 100), offsetHeight = (\<lambda>e. 601)\<rparr>
        \<lparr>scrollY = Some (801 / 2), pageYOffset = 801 / 2\<rparr>
        \<lparr>classList = (\<lambda>e. {}), console = []\<rparr>)))
   \<and> \<not> cl_contains 0 ''nav-shrink''
     (classList (state_of (handleNavbarScroll (Some 0) (Some 1)
        \<lparr>offsetTop = (\<lambda>e. 100), offsetHeight = (\<lambda>e. 601)\<rparr>
        \<lparr>scrollY = Some 400, pageYOffset = 400\<rparr>
        \<lparr>classList = (\<lambda>e. {''nav-shrink''}), console = []\<rparr>)))
   \<and> scrollPosition \<lparr>scrollY = Some 400, pageYOffset = 400\<rparr> = 400"
  using navbar_shrunk_iff_past_halfway [of 0 1
          "\<lparr>offsetTop = (\<lambda>e. 100), offsetHeight = (\<lambda>e. 601)\<rparr>"
          "\<lparr>scrollY = Some (801 / 2), pageYOffset = 801 / 2\<rparr>"
          "\<lparr>classList = (\<lambda>e. {}), console = []\<rparr>" "801 / 2"]
        navbar_shrunk_iff_past_halfway [of 0 1
          "\<lparr>offsetTop = (\<lambda>e. 100), offsetHeight = (\<lambda>e. 601)\<rparr>"
          "\<lparr>scrollY = Some 400, pageYOffset = 400\<rparr>"
          "\<lparr>classList = (\<lambda>e. {''nav-shrink''}), console = []\<rparr>" 400]
  by (simp add: scrollPosition_def cl_contains_def cl_add_def cl_remove_def)

lemma handleNavbarScroll_no_hero:
  "handleNavbarScroll nav None l w st =
     Returned (st\<lparr>console := console st @ [''heroLanding section not found'']\<rparr>)"
  by (simp add: handleNavbarScroll_def)

lemma navbar_run_no_hero:
  "navbar_run nav None lws st =
     st\<lparr>console := console st @ replicate (length lws) ''heroLanding section not found''\<rparr>"
proof (induction lws arbitrary: st)
  case Nil
  show ?case by simp
next
  case (Cons lw lws)
  show ?case
    by (simp add: Cons.IH handleNavbarScroll_no_hero replicate_app_Cons_same)
qed

text \<open>
  Claim C8.  When the hero region is absent, every invocation of the handler logs the
  warning and returns normally, and no class of any element is added or removed,
  whether or not the navigation bar itself exists.
\<close>

theorem navbar_without_hero_warns_and_returns:
  "handleNavbarScroll nav None l w st =
     Returned (st\<lparr>console := console st @ [''heroLanding section not found'']\<rparr>)
   \<and> classList (state_of (handleNavbarScroll nav None l w st)) = classList st
   \<and> classList (navbar_run nav None lws st) = classList st
   \<and> console (navbar_run nav None lws st) =
       console st @ replicate (length lws) ''heroLanding section not found''"
  by (simp add: handleNavbarScroll_no_hero navbar_run_no_hero)

theorem navbar_without_hero_warns_and_returns_witness:
  "handleNavbarScroll (Some 0) None
      \<lparr>offsetTop = (\<lambda>e. 0), offsetHeight = (\<lambda>e. 0)\<rparr>
      \<lparr>scrollY = Some 900, pageYOffset = 900\<rparr>
      \<lparr>classList = (\<lambda>e. {''nav-shrink''}), console = []\<rparr>
     = Returned \<lparr>classList = (\<lambda>e. {''nav-shrink''}),
                 console = [''heroLanding section not found'']\<rparr>
   \<and> console (navbar_run None None
        [(\<lparr>offsetTop = (\<lambda>e. 0), offsetHeight = (\<lambda>e. 0)\<rparr>,
          \<lparr>scrollY = Some 900, pageYOffset = 900\<rparr>),
         (\<lparr>offsetTop = (\<lambda>e. 0), offsetHeight = (\<lambda>e. 0)\<rparr>,
          \<lparr>scrollY = None, pageYOffset = 0\<rparr>)]
        \<lparr>classList = (\<lambda>e. {}), console = []\<rparr>)
     = [''heroLanding section not found'', ''heroLanding section not found'']"
  using navbar_without_hero_warns_and_returns [where nav = "Some 0"
          and l = "\<lparr>offsetTop = (\<lambda>e. 0), offsetHeight = (\<lambda>e. 0)\<rparr>"
          and w = "\<lparr>scrollY = Some 900, pageYOffset = 900\<rparr>"
          and st = "\<lparr>classList = (\<lambda>e. {''nav-shrink''}), console = []\<rparr>"]
        navbar_without_hero_warns_and_returns [where nav = None and lws =
          "[(\<lparr>offsetTop = (\<lambda>e. 0), offsetHeight = (\<lambda>e. 0)\<rparr>,
             \<lparr>scrollY = Some 900, pageYOffset = 900\<rparr>),
            (\<lparr>offsetTop = (\<lambda>e. 0), offsetHeight = (\<lambda>e. 0)\<rparr>,
             \<lparr>scrollY = None, pageYOffset = 0\<rparr>)]"
          and st = "\<lparr>classList = (\<lambda>e. {}), console = []\<rparr>"]
  by (simp add: handleNavbarScroll_def)

section \<open>Viewport section observer: the active marker\<close>

lemma cl_remove_mem: "(c' \<in> cl_remove e c cs e') = (c' \<in> cs e' \<and> \<not> (e' = e \<and> c' = c))"
  by (auto simp: cl_remove_def)

lemma cl_add_mem: "(c' \<in> cl_add e c cs e') = (c' \<in> cs e' \<or> (e' = e \<and> c' = c))"
  by (auto simp: cl_add_def)

lemma remove_from_all_mem:
  "(c' \<in> remove_from_all bs c cs e) = (c' \<in> cs e \<and> \<not> (e \<in> set bs \<and> c' = c))"
  by (induction bs arbitrary: cs) (auto simp: cl_remove_mem)

lemma active_blocks_iff:
  "(b \<in> active_blocks blocks cs) = (b \<in> set blocks \<and> ''vsect-active'' \<in> cs b)"
  by (auto simp: active_blocks_def cl_contains_def)

lemma active_blocks_after_exceeding:
  "active_blocks blocks (cl_add t ''vsect-active'' (remove_from_all blocks ''vsect-active'' cs))
     = (if t \<in> set blocks then {t} else {})"
  by (auto simp: active_blocks_iff cl_add_mem remove_from_all_mem)

lemma active_blocks_after_other:
  "active_blocks blocks (cl_remove t ''vsect-active'' cs) = active_blocks blocks cs - {t}"
  by (auto simp: active_blocks_iff cl_remove_mem)

lemma finite_active_blocks: "finite (active_blocks blocks cs)"
  by (simp add: active_blocks_def)

lemma handleIntersection_step:
  "handleIntersection blocks (en # entries) cs =
     handleIntersection blocks entries
       (if exceeds en
        then cl_add (target en) ''vsect-active'' (remove_from_all blocks ''vsect-active'' cs)
        else cl_remove (target en) ''vsect-active'' cs)"
  by (simp add: exceeds_def)

lemma at_most_one_kept:
  "card (active_blocks blocks cs) \<le> 1 \<Longrightarrow>
   card (active_blocks blocks (handleIntersection blocks entries cs)) \<le> 1"
proof (induction entries arbitrary: cs)
  case Nil
  then show ?case by simp
next
  case (Cons en entries)
  show ?case
  proof (cases "exceeds en")
    case True
    have "card (active_blocks blocks
            (cl_add (target en) ''vsect-active'' (remove_from_all blocks ''vsect-active'' cs))) \<le> 1"
      by (simp add: active_blocks_after_exceeding)
    from Cons.IH [OF this] True show ?thesis by (simp only: handleIntersection_step if_True)
  next
    case False
    have "card (active_blocks blocks cs - {target en}) \<le> card (active_blocks blocks cs)"
      by (rule card_mono) (auto simp: finite_active_blocks)
    with Cons.prems
    have "card (active_blocks blocks (cl_remove (target en) ''vsect-active'' cs)) \<le> 1"
      by (simp add: active_blocks_after_other)
    from Cons.IH [OF this] False show ?thesis by (simp only: handleIntersection_step if_False)
  qed
qed

lemma at_most_one_established:
  "\<exists>en \<in> set entries. exceeds en \<Longrightarrow>
   card (active_blocks blocks (handleIntersection blocks entries cs)) \<le> 1"
proof (induction entries arbitrary: cs)
  case Nil
  then show ?case by simp
next
  case (Cons en entries)
  show ?case
  proof (cases "exceeds en")
    case True
    have "card (active_blocks blocks
            (cl_add (target en) ''vsect-active'' (remove_from_all blocks ''vsect-active'' cs))) \<le> 1"
      by (simp add: active_blocks_after_exceeding)
    from at_most_one_kept [OF this] True show ?thesis by (simp only: handleIntersection_step if_True)
  next
    case False
    with Cons.prems have "\<exists>en \<in> set entries. exceeds en"
      by auto
    from Cons.IH [OF this] False show ?thesis by (simp only: handleIntersection_step if_False)
  qed
qed

lemma none_exceeding:
  "\<forall>en \<in> set entries. \<not> exceeds en \<Longrightarrow>
   handleIntersection blocks entries cs =
     remove_from_all (map target entries) ''vsect-active'' cs"
  by (induction entries arbitrary: cs) (simp_all add: handleIntersection_step del: handleIntersection.simps(2))

lemma active_blocks_none_exceeding:
  "\<forall>en \<in> set entries. \<not> exceeds en \<Longrightarrow>
   active_blocks blocks (handleIntersection blocks entries cs) =
     active_blocks blocks cs - target ` set entries"
  by (auto simp: none_exceeding active_blocks_iff remove_from_all_mem)

text \<open>
  Claim C1, as the code has it.  An entry that is intersecting with a ratio above 0.7
  clears the marker from every observed section and then sets it on its own target; any
  other entry removes the marker of its own target only.  After a batch at most one
  observed section carries the marker, provided the batch has an entry above 0.7 or at
  most one section carried the marker before the batch.  When no entry of the batch is
  above 0.7, the sections that carry the marker afterwards are those that carried it
  before and are not a target in the batch.
\<close>

theorem section_observer_batch:
  "(exceeds en \<longrightarrow>
      handleIntersection blocks (en # rest) cs =
        handleIntersection blocks rest
          (cl_add (target en) ''vsect-active'' (remove_from_all blocks ''vsect-active'' cs)))
   \<and> (\<not> exceeds en \<longrightarrow>
      handleIntersection blocks (en # rest) cs =
        handleIntersection blocks rest (cl_remove (target en) ''vsect-active'' cs))
   \<and> ((\<exists>x \<in> set entries. exceeds x) \<or> card (active_blocks blocks cs) \<le> 1 \<longrightarrow>
      card (active_blocks blocks (handleIntersection blocks entries cs)) \<le> 1)
   \<and> ((\<forall>x \<in> set entries. \<not> exceeds x) \<longrightarrow>
      active_blocks blocks (handleIntersection blocks entries cs) =
        active_blocks blocks cs - target ` set entries)"
  using at_most_one_kept [of blocks cs entries] at_most_one_established [of entries blocks cs]
        active_blocks_none_exceeding [of entries blocks cs]
  by (auto simp add: handleIntersection_step simp del: handleIntersection.simps(2))

theorem section_observer_batch_witness:
  "exceeds \<lparr>target = 3, isIntersecting = True, intersectionRatio = 4 / 5\<rparr>
   \<and> \<not> exceeds \<lparr>target = 1, isIntersecting = True, intersectionRatio = 7 / 10\<rparr>
   \<and> active_blocks [1, 2, 3]
        (handleIntersection [1, 2, 3]
           [\<lparr>target = 3, isIntersecting = True, intersectionRatio = 4 / 5\<rparr>,
            \<lparr>target = 1, isIntersecting = True, intersectionRatio = 7 / 10\<rparr>]
           (\<lambda>e. {''vsect-active''})) = {3}
   \<and> card (active_blocks [1, 2, 3]
        (handleIntersection [1, 2, 3]
           [\<lparr>target = 3, isIntersecting = True, intersectionRatio = 4 / 5\<rparr>,
            \<lparr>target = 1, isIntersecting = True, intersectionRatio = 7 / 10\<rparr>]
           (\<lambda>e. {''vsect-active''}))) \<le> 1
   \<and> active_blocks [1, 2, 3]
        (handleIntersection [1, 2, 3]
           [\<lparr>target = 1, isIntersecting = True, intersectionRatio = 7 / 10\<rparr>]
           ((\<lambda>e. {})(1 := {''vsect-active''}))) = {}"
  using section_observer_batch [of "\<lparr>target = 3, isIntersecting = True, intersectionRatio = 4 / 5\<rparr>"
          "[1, 2, 3]" "[\<lparr>target = 1, isIntersecting = True, intersectionRatio = 7 / 10\<rparr>]"
          "\<lambda>e. {''vsect-active''}"
          "[\<lparr>target = 3, isIntersecting = True, intersectionRatio = 4 / 5\<rparr>,
            \<lparr>target = 1, isIntersecting = True, intersectionRatio = 7 / 10\<rparr>]"]
        section_observer_batch [of "\<lparr>target = 1, isIntersecting = True, intersectionRatio = 7 / 10\<rparr>"
          "[1, 2, 3]" "[]" "(\<lambda>e. {})(1 := {''vsect-active''})"
          "[\<lparr>target = 1, isIntersecting = True, intersectionRatio = 7 / 10\<rparr>]"]
  by (simp add: exceeds_def active_blocks_def cl_contains_def cl_add_def cl_remove_def)

text \<open>
  Claim C1 as stated fails in its last part: starting from no marker at all, section 1
  becomes active in a first batch; a second batch whose only entry (for section 2) is
  not above 0.7 leaves section 1 active, not zero sections.  The bound of one marker
  needs its proviso as well: on a page whose markup already marks sections 1 and 2, a
  batch with one entry for section 3 that is not above 0.7 leaves both marked.
\<close>

theorem section_marker_survives_quiet_batch:
  "\<not> exceeds \<lparr>target = 2, isIntersecting = True, intersectionRatio = 1 / 10\<rparr>
   \<and> active_blocks [1, 2]
        (handleIntersection [1, 2]
           [\<lparr>target = 2, isIntersecting = True, intersectionRatio = 1 / 10\<rparr>]
           (handleIntersection [1, 2]
              [\<lparr>target = 1, isIntersecting = True, intersectionRatio = 4 / 5\<rparr>]
              (\<lambda>e. {}))) = {1}
   \<and> \<not> exceeds \<lparr>target = 3, isIntersecting = False, intersectionRatio = 0\<rparr>
   \<and> active_blocks [1, 2, 3]
        (handleIntersection [1, 2, 3]
           [\<lparr>target = 3, isIntersecting = False, intersectionRatio = 0\<rparr>]
           ((\<lambda>e. {})(1 := {''vsect-active''}, 2 := {''vsect-active''}))) = {1, 2}"
  by (simp add: exceeds_def active_blocks_def cl_contains_def cl_add_def cl_remove_def)

section \<open>Animation system: repeatable modes\<close>

lemma handleLineRepeatEntries_eq:
  "handleLineRepeatEntries entries st = handleAnimateRepeatEntries entries st"
  by (induction entries arbitrary: st) simp_all

lemma repeat_entries_append:
  "handleAnimateRepeatEntries (xs @ ys) st =
     handleAnimateRepeatEntries ys (handleAnimateRepeatEntries xs st)"
  by (induction xs arbitrary: st) simp_all

lemma repeat_callbacks_concat:
  "repeat_callbacks handleAnimateRepeatEntries batches st =
     handleAnimateRepeatEntries (concat batches) st"
  by (induction batches arbitrary: st) (simp_all add: repeat_entries_append)

lemma find_append:
  "find P (xs @ ys) = (case find P xs of None \<Rightarrow> find P ys | Some x \<Rightarrow> Some x)"
  by (induction xs) simp_all

lemma last_report_Cons:
  "last_report e (en # entries) =
     (case last_report e entries of
        Some b \<Rightarrow> Some b
      | None \<Rightarrow> if target en = e then Some (isIntersecting en) else None)"
  by (simp add: last_report_def find_append split: option.splits)

lemma repeat_entries_in_view:
  "(''in-view'' \<in> classList (handleAnimateRepeatEntries entries st) e) =
     (case last_report e entries of
        None \<Rightarrow> ''in-view'' \<in> classList st e
      | Some b \<Rightarrow> b)"
proof (induction entries arbitrary: st)
  case Nil
  show ?case by (simp add: last_report_def)
next
  case (Cons en entries)
  show ?case
    by (simp add: Cons.IH last_report_Cons cl_add_mem cl_remove_mem split: option.splits)
qed

text \<open>
  Claim C2.  For the two repeatable handlers and every sequence of callbacks (batches of
  entries), an element that has been reported at all carries the \<open>in-view\<close> class
  afterwards exactly when the most recent entry about it said it was intersecting, however
  many times it entered and left before.
\<close>

theorem repeatable_marker_tracks_latest_report:
  "last_report e (concat batches) = Some b \<Longrightarrow>
     cl_contains e ''in-view''
       (classList (repeat_callbacks handleAnimateRepeatEntries batches st)) = b
   \<and> cl_contains e ''in-view''
       (classList (repeat_callbacks handleLineRepeatEntries batches st)) = b"
proof -
  assume r: "last_report e (concat batches) = Some b"
  have "handleLineRepeatEntries = handleAnimateRepeatEntries"
    by (intro ext) (rule handleLineRepeatEntries_eq)
  with r show ?thesis
    by (simp add: cl_contains_def repeat_callbacks_concat repeat_entries_in_view)
qed

theorem repeatable_marker_tracks_latest_report_witness:
  "last_report 5
     (concat [[\<lparr>target = 5, isIntersecting = True, intersectionRatio = 1 / 2\<rparr>],
              [\<lparr>target = 5, isIntersecting = False, intersectionRatio = 0\<rparr>,
               \<lparr>target = 6, isIntersecting = True, intersectionRatio = 1\<rparr>],
              [\<lparr>target = 5, isIntersecting = True, intersectionRatio = 1 / 3\<rparr>],
              [\<lparr>target = 5, isIntersecting = False, intersectionRatio = 1 / 5\<rparr>]]) = Some False
   \<and> \<not> cl_contains 5 ''in-view''
       (classList (repeat_callbacks handleAnimateRepeatEntries
          [[\<lparr>target = 5, isIntersecting = True, intersectionRatio = 1 / 2\<rparr>],
           [\<lparr>target = 5, isIntersecting = False, intersectionRatio = 0\<rparr>,
            \<lparr>target = 6, isIntersecting = True, intersectionRatio = 1\<rparr>],
           [\<lparr>target = 5, isIntersecting = True, intersectionRatio = 1 / 3\<rparr>],
           [\<lparr>target = 5, isIntersecting = False, intersectionRatio = 1 / 5\<rparr>]]
          \<lparr>classList = (\<lambda>x. {''in-view'', ''animate-repeat''}), animateObserver = {},
           animateRepeatObserver = {5, 6}, lineObserver = {}, lineRepeatObserver = {}\<rparr>))
   \<and> last_report 6
     (concat [[\<lparr>target = 5, isIntersecting = True, intersectionRatio = 1 / 2\<rparr>],
              [\<lparr>target = 5, isIntersecting = False, intersectionRatio = 0\<rparr>,
               \<lparr>target = 6, isIntersecting = True, intersectionRatio = 1\<rparr>]]) = Some True
   \<and> cl_contains 6 ''in-view''
       (classList (repeat_callbacks handleLineRepeatEntries
          [[\<lparr>target = 5, isIntersecting = True, intersectionRatio = 1 / 2\<rparr>],
           [\<lparr>target = 5, isIntersecting = False, intersectionRatio = 0\<rparr>,
            \<lparr>target = 6, isIntersecting = True, intersectionRatio = 1\<rparr>]]
          \<lparr>classList = (\<lambda>x. {}), animateObserver = {},
           animateRepeatObserver = {}, lineObserver = {}, lineRepeatObserver = {5, 6}\<rparr>))"
proof -
  have a: "last_report 5
     (concat [[\<lparr>target = 5, isIntersecting = True, intersectionRatio = 1 / 2\<rparr>],
              [\<lparr>target = 5, isIntersecting = False, intersectionRatio = 0\<rparr>,
               \<lparr>target = 6, isIntersecting = True, intersectionRatio = 1\<rparr>],
              [\<lparr>target = 5, isIntersecting = True, intersectionRatio = 1 / 3\<rparr>],
              [\<lparr>target = 5, isIntersecting = False, intersectionRatio = 1 / 5\<rparr>]]) = Some False"
    by (simp add: last_report_def)
  have b: "last_report 6
     (concat [[\<lparr>target = 5, isIntersecting = True, intersectionRatio = 1 / 2\<rparr>],
              [\<lparr>target = 5, isIntersecting = False, intersectionRatio = 0\<rparr>,
               \<lparr>target = 6, isIntersecting = True, intersectionRatio = 1\<rparr>]]) = Some True"
    by (simp add: last_report_def)
  show ?thesis
    using a b
      repeatable_marker_tracks_latest_report [OF a, where st =
          "\<lparr>classList = (\<lambda>x. {''in-view'', ''animate-repeat''}), animateObserver = {},
           animateRepeatObserver = {5, 6}, lineObserver = {}, lineRepeatObserver = {}\<rparr>"]
      repeatable_marker_tracks_latest_report [OF b, where st =
          "\<lparr>classList = (\<lambda>x. {}), animateObserver = {},
           animateRepeatObserver = {}, lineObserver = {}, lineRepeatObserver = {5, 6}\<rparr>"]
    by simp
qed

section \<open>Animation system: one-shot modes\<close>

lemma add_to_each_mem:
  "(c' \<in> add_to_each es c cs x) = (c' \<in> cs x \<or> (x \<in> set es \<and> c' = c))"
  by (induction es arbitrary: cs) (auto simp: cl_add_mem)

lemma handleAnimateEntries_result:
  "handleAnimateEntries entries st =
     st\<lparr>classList := add_to_each (map target (filter isIntersecting entries)) ''in-view'' (classList st),
        animateObserver := animateObserver st - target ` set (filter isIntersecting entries)\<rparr>"
proof (induction entries arbitrary: st)
  case Nil
  show ?case by simp
next
  case (Cons en entries)
  have "animateObserver st - {target en} - target ` {x \<in> set entries. isIntersecting x} =
        animateObserver st - insert (target en) (target ` {x \<in> set entries. isIntersecting x})"
    by auto
  then show ?case by (simp add: Cons.IH)
qed

lemma handleLineEntries_result:
  "handleLineEntries entries st =
     st\<lparr>classList := add_to_each (map target (filter isIntersecting entries)) ''in-view'' (classList st),
        lineObserver := lineObserver st - target ` set (filter isIntersecting entries)\<rparr>"
proof (induction entries arbitrary: st)
  case Nil
  show ?case by simp
next
  case (Cons en entries)
  have "lineObserver st - {target en} - target ` {x \<in> set entries. isIntersecting x} =
        lineObserver st - insert (target en) (target ` {x \<in> set entries. isIntersecting x})"
    by auto
  then show ?case by (simp add: Cons.IH)
qed

lemma repeat_entries_observers:
  "animateObserver (handleAnimateRepeatEntries entries st) = animateObserver st
   \<and> animateRepeatObserver (handleAnimateRepeatEntries entries st) = animateRepeatObserver st
   \<and> lineObserver (handleAnimateRepeatEntries entries st) = lineObserver st
   \<and> lineRepeatObserver (handleAnimateRepeatEntries entries st) = lineRepeatObserver st"
  by (induction entries arbitrary: st) simp_all

lemma repeat_entries_untouched:
  "e \<notin> target ` set entries \<Longrightarrow>
   classList (handleAnimateRepeatEntries entries st) e = classList st e"
  by (induction entries arbitrary: st) (auto simp: cl_add_def cl_remove_def)

lemma one_shot_classes:
  "''in-view'' \<in> cs e \<Longrightarrow> add_to_each es ''in-view'' cs e = cs e"
  by (auto simp: add_to_each_mem)

lemma delivered_targets: "x \<in> set (delivered ob batch st) \<Longrightarrow> target x \<in> targets_of ob st"
  by (simp add: delivered_def)

lemma notify_keeps:
  assumes "''in-view'' \<in> classList st e"
    and "e \<notin> animateRepeatObserver st" and "e \<notin> lineRepeatObserver st"
  shows "classList (notify n st) e = classList st e
     \<and> animateRepeatObserver (notify n st) = animateRepeatObserver st
     \<and> lineRepeatObserver (notify n st) = lineRepeatObserver st
     \<and> animateObserver (notify n st) \<subseteq> animateObserver st
     \<and> lineObserver (notify n st) \<subseteq> lineObserver st"
proof (cases "fst n")
  case Animate
  then show ?thesis using assms
    by (auto simp add: notify_def handleAnimateEntries_result one_shot_classes)
next
  case AnimateRepeat
  have "e \<notin> target ` set (delivered AnimateRepeat (snd n) st)"
    using assms(2) delivered_targets [of _ AnimateRepeat "snd n" st] by auto
  with AnimateRepeat show ?thesis
    by (simp add: notify_def repeat_entries_observers repeat_entries_untouched)
next
  case Line
  then show ?thesis using assms
    by (auto simp add: notify_def handleLineEntries_result one_shot_classes)
next
  case LineRepeat
  have "e \<notin> target ` set (delivered LineRepeat (snd n) st)"
    using assms(3) delivered_targets [of _ LineRepeat "snd n" st] by auto
  with LineRepeat show ?thesis
    by (simp add: notify_def handleLineRepeatEntries_eq repeat_entries_observers
                  repeat_entries_untouched)
qed

lemma notify_all_keeps:
  assumes "''in-view'' \<in> classList st e"
    and "e \<notin> animateRepeatObserver st" and "e \<notin> lineRepeatObserver st"
  shows "classList (notify_all ns st) e = classList st e
     \<and> animateObserver (notify_all ns st) \<subseteq> animateObserver st
     \<and> lineObserver (notify_all ns st) \<subseteq> lineObserver st"
  using assms
proof (induction ns arbitrary: st)
  case Nil
  show ?case by simp
next
  case (Cons n ns)
  note k = notify_keeps [OF Cons.prems, of n]
  have "''in-view'' \<in> classList (notify n st) e"
    and "e \<notin> animateRepeatObserver (notify n st)"
    and "e \<notin> lineRepeatObserver (notify n st)"
    using k Cons.prems by simp_all
  from Cons.IH [OF this] k show ?case by auto
qed

lemma one_shot_callback:
  assumes "ob = Animate \<or> ob = Line"
    and "en \<in> set entries" and "target en = e" and "isIntersecting en"
  shows "''in-view'' \<in> classList (callback ob entries st) e
     \<and> e \<notin> targets_of ob (callback ob entries st)
     \<and> animateRepeatObserver (callback ob entries st) = animateRepeatObserver st
     \<and> lineRepeatObserver (callback ob entries st) = lineRepeatObserver st"
proof -
  have "e \<in> target ` set (filter isIntersecting entries)"
    using assms(2-4) by force
  then show ?thesis
    using assms(1)
    by (auto simp add: handleAnimateEntries_result handleLineEntries_result add_to_each_mem)
qed

text \<open>
  Claim C5, as the code has it.  Take an element of a one-shot mode (watched by
  \<open>animateObserver\<close> or \<open>lineObserver\<close>) that is not at the same time a target of a
  repeatable observer.  Once a callback of its
  observer has processed an intersecting entry for it, the element carries \<open>in-view\<close>
  and is no longer a target of that observer.  From then on, whatever notifications the
  four observers receive, the element's class list stays as it is, the element stays
  unobserved, and no entry about it reaches that observer's callback again.
\<close>

theorem one_shot_marker_is_final:
  assumes "ob = Animate \<or> ob = Line"
    and "en \<in> set entries" and "target en = e" and "isIntersecting en"
    and "e \<notin> animateRepeatObserver st" and "e \<notin> lineRepeatObserver st"
  shows "cl_contains e ''in-view'' (classList (callback ob entries st))
     \<and> e \<notin> targets_of ob (callback ob entries st)
     \<and> classList (notify_all ns (callback ob entries st)) e = classList (callback ob entries st) e
     \<and> e \<notin> targets_of ob (notify_all ns (callback ob entries st))
     \<and> e \<notin> target ` set (delivered ob batch (notify_all ns (callback ob entries st)))"
proof -
  note c = one_shot_callback [OF assms(1-4), of st]
  have k: "classList (notify_all ns (callback ob entries st)) e = classList (callback ob entries st) e
     \<and> animateObserver (notify_all ns (callback ob entries st)) \<subseteq> animateObserver (callback ob entries st)
     \<and> lineObserver (notify_all ns (callback ob entries st)) \<subseteq> lineObserver (callback ob entries st)"
    using c assms(5,6) by (intro notify_all_keeps) simp_all
  have out: "e \<notin> targets_of ob (notify_all ns (callback ob entries st))"
    using c k assms(1) by auto
  then have "e \<notin> target ` set (delivered ob batch (notify_all ns (callback ob entries st)))"
    using delivered_targets [of _ ob batch "notify_all ns (callback ob entries st)"] by auto
  with c k out show ?thesis by (simp add: cl_contains_def)
qed

theorem one_shot_marker_is_final_witness:
  "cl_contains 7 ''in-view''
     (classList (callback Animate
        [\<lparr>target = 7, isIntersecting = True, intersectionRatio = 1 / 4\<rparr>]
        \<lparr>classList = (\<lambda>x. {''animate''}), animateObserver = {7, 8},
         animateRepeatObserver = {9}, lineObserver = {}, lineRepeatObserver = {}\<rparr>))
   \<and> 7 \<notin> targets_of Animate
     (callback Animate
        [\<lparr>target = 7, isIntersecting = True, intersectionRatio = 1 / 4\<rparr>]
        \<lparr>classList = (\<lambda>x. {''animate''}), animateObserver = {7, 8},
         animateRepeatObserver = {9}, lineObserver = {}, lineRepeatObserver = {}\<rparr>)
   \<and> classList (notify_all
        [(Animate, [\<lparr>target = 7, isIntersecting = False, intersectionRatio = 0\<rparr>]),
         (Animate, [\<lparr>target = 7, isIntersecting = True, intersectionRatio = 1\<rparr>]),
         (AnimateRepeat, [\<lparr>target = 7, isIntersecting = False, intersectionRatio = 0\<rparr>])]
        (callback Animate
          [\<lparr>target = 7, isIntersecting = True, intersectionRatio = 1 / 4\<rparr>]
          \<lparr>classList = (\<lambda>x. {''animate''}), animateObserver = {7, 8},
           animateRepeatObserver = {9}, lineObserver = {}, lineRepeatObserver = {}\<rparr>)) 7
       = {''in-view'', ''animate''}
   \<and> delivered Animate [\<lparr>target = 7, isIntersecting = True, intersectionRatio = 1\<rparr>]
        (notify_all
          [(Animate, [\<lparr>target = 7, isIntersecting = False, intersectionRatio = 0\<rparr>]),
           (Animate, [\<lparr>target = 7, isIntersecting = True, intersectionRatio = 1\<rparr>]),
           (AnimateRepeat, [\<lparr>target = 7, isIntersecting = False, intersectionRatio = 0\<rparr>])]
          (callback Animate
            [\<lparr>target = 7, isIntersecting = True, intersectionRatio = 1 / 4\<rparr>]
            \<lparr>classList = (\<lambda>x. {''animate''}), animateObserver = {7, 8},
             animateRepeatObserver = {9}, lineObserver = {}, lineRepeatObserver = {}\<rparr>)) = []"
  using one_shot_marker_is_final [of Animate
          "\<lparr>target = 7, isIntersecting = True, intersectionRatio = 1 / 4\<rparr>"
          "[\<lparr>target = 7, isIntersecting = True, intersectionRatio = 1 / 4\<rparr>]" 7
          "\<lparr>classList = (\<lambda>x. {''animate''}), animateObserver = {7, 8},
           animateRepeatObserver = {9}, lineObserver = {}, lineRepeatObserver = {}\<rparr>"
          "[(Animate, [\<lparr>target = 7, isIntersecting = False, intersectionRatio = 0\<rparr>]),
            (Animate, [\<lparr>target = 7, isIntersecting = True, intersectionRatio = 1\<rparr>]),
            (AnimateRepeat, [\<lparr>target = 7, isIntersecting = False, intersectionRatio = 0\<rparr>])]"
          "[\<lparr>target = 7, isIntersecting = True, intersectionRatio = 1\<rparr>]"]
  by (simp add: notify_def delivered_def cl_contains_def cl_add_def cl_remove_def)

text \<open>
  Claim C5 as stated fails for an element that matches a one-shot and a repeatable
  selector at once.  Element 7 with the classes \<open>line-horizontal\<close> and
  \<open>line-animate-repeat\<close> is observed by \<open>lineObserver\<close> and by
  \<open>lineRepeatObserver\<close>.  On entering, the one-shot callback adds \<open>in-view\<close> and
  unobserves it; on leaving, the repeatable callback removes \<open>in-view\<close>.
\<close>

theorem one_shot_marker_lost_when_also_repeatable:
  "7 \<in> lineObserver
     (observeElements [7]
        \<lparr>classList = (\<lambda>e. {''line-horizontal'', ''line-animate-repeat''}),
         animateObserver = {}, animateRepeatObserver = {},
         lineObserver = {}, lineRepeatObserver = {}\<rparr>)
   \<and> cl_contains 7 ''in-view''
     (classList (notify_all
        [(Line, [\<lparr>target = 7, isIntersecting = True, intersectionRatio = 1 / 4\<rparr>])]
        (observeElements [7]
          \<lparr>classList = (\<lambda>e. {''line-horizontal'', ''line-animate-repeat''}),
           animateObserver = {}, animateRepeatObserver = {},
           lineObserver = {}, lineRepeatObserver = {}\<rparr>)))
   \<and> 7 \<notin> lineObserver
     (notify_all
        [(Line, [\<lparr>target = 7, isIntersecting = True, intersectionRatio = 1 / 4\<rparr>])]
        (observeElements [7]
          \<lparr>classList = (\<lambda>e. {''line-horizontal'', ''line-animate-repeat''}),
           animateObserver = {}, animateRepeatObserver = {},
           lineObserver = {}, lineRepeatObserver = {}\<rparr>))
   \<and> \<not> cl_contains 7 ''in-view''
     (classList (notify_all
        [(Line, [\<lparr>target = 7, isIntersecting = True, intersectionRatio = 1 / 4\<rparr>]),
         (LineRepeat, [\<lparr>target = 7, isIntersecting = True, intersectionRatio = 1 / 4\<rparr>]),
         (LineRepeat, [\<lparr>target = 7, isIntersecting = False, intersectionRatio = 0\<rparr>])]
        (observeElements [7]
          \<lparr>classList = (\<lambda>e. {''line-horizontal'', ''line-animate-repeat''}),
           animateObserver = {}, animateRepeatObserver = {},
           lineObserver = {}, lineRepeatObserver = {}\<rparr>)))"
  by (simp add: observeElements_def has_class_def notify_def delivered_def
        cl_contains_def cl_add_def cl_remove_def)

section \<open>Preload overlay: the timed sequence\<close>





















section \<open>Services tabs: the accordion\<close>

lemma has_class_remove_other: "c \<noteq> c' \<Longrightarrow> has_class (cl_remove y c' cs) c = has_class cs c"
  by (auto simp: has_class_def cl_remove_mem fun_eq_iff)

lemma has_class_add_other: "c \<noteq> c' \<Longrightarrow> has_class (cl_add y c' cs) c = has_class cs c"
  by (auto simp: has_class_def cl_add_mem fun_eq_iff)

lemma closest_remove_class:
  "c \<noteq> c' \<Longrightarrow> closest c x (remove_class y c' p) = closest c x p"
  by (simp add: closest_def remove_class_def has_class_remove_other)

lemma querySelector_in_remove_class:
  "c \<noteq> c' \<Longrightarrow> querySelector_in x c (remove_class y c' p) = querySelector_in x c p"
  by (simp add: querySelector_in_def descendants_def node_of_def remove_class_def
        has_class_remove_other)

lemma content_of_remove_class:
  "content_of t (remove_class y ''active'' p) = content_of t p"
  by (simp add: content_of_def closest_remove_class querySelector_in_remove_class
        split: option.splits)

lemma closest_add_class:
  "c \<noteq> c' \<Longrightarrow> closest c x (add_class y c' p) = closest c x p"
  by (simp add: closest_def add_class_def has_class_add_other)

lemma querySelector_in_add_class:
  "c \<noteq> c' \<Longrightarrow> querySelector_in x c (add_class y c' p) = querySelector_in x c p"
  by (simp add: querySelector_in_def descendants_def node_of_def add_class_def
        has_class_add_other)

lemma content_of_add_class:
  "content_of t (add_class y ''active'' p) = content_of t p"
  by (simp add: content_of_def closest_add_class querySelector_in_add_class
        split: option.splits)

lemma closest_triggerAnimations: "closest c x (triggerAnimations y p) = closest c x p"
  by (simp add: closest_def triggerAnimations_def setTimeout_def)

lemma querySelector_in_triggerAnimations:
  "querySelector_in x c (triggerAnimations y p) = querySelector_in x c p"
  by (simp add: querySelector_in_def descendants_def node_of_def triggerAnimations_def
        setTimeout_def)

lemma content_of_triggerAnimations:
  "content_of t (triggerAnimations c p) = content_of t p"
  by (simp add: content_of_def closest_triggerAnimations querySelector_in_triggerAnimations
        split: option.splits)

lemma content_of_classes:
  assumes "\<And>e. (''services-tab-container'' \<in> cs e) = (''services-tab-container'' \<in> classList p e)"
    and "\<And>e. (''services-tab-content'' \<in> cs e) = (''services-tab-content'' \<in> classList p e)"
  shows "content_of t (p\<lparr>classList := cs\<rparr>) = content_of t p"
proof -
  have 1: "has_class cs ''services-tab-container'' = has_class (classList p) ''services-tab-container''"
    using assms(1) by (simp add: has_class_def fun_eq_iff)
  have 2: "has_class cs ''services-tab-content'' = has_class (classList p) ''services-tab-content''"
    using assms(2) by (simp add: has_class_def fun_eq_iff)
  have c: "closest ''services-tab-container'' t (p\<lparr>classList := cs\<rparr>)
             = closest ''services-tab-container'' t p"
    by (simp add: closest_def 1)
  have q: "\<And>k. querySelector_in k ''services-tab-content'' (p\<lparr>classList := cs\<rparr>)
             = querySelector_in k ''services-tab-content'' p"
    by (simp add: querySelector_in_def descendants_def node_of_def 2)
  show ?thesis
    by (simp add: content_of_def c q split: option.splits)
qed

lemma close_others_step:
  "otherTab \<noteq> tab \<Longrightarrow> content_of otherTab q = Some oc \<Longrightarrow>
   close_others tab (otherTab # rest) q =
     close_others tab rest (remove_class oc ''active'' (remove_class otherTab ''active'' q))"
  by (auto simp: content_of_def split: option.splits)

lemma close_others_returns:
  assumes "\<forall>t \<in> set ts. content_of t q \<noteq> None"
  shows "\<exists>r. close_others tab ts q = Returned r
        \<and> r = q\<lparr>classList := classList r\<rparr>
        \<and> (\<forall>e c. (c \<in> classList r e) =
              (c \<in> classList q e \<and>
               \<not> (c = ''active'' \<and> (\<exists>t \<in> set ts. t \<noteq> tab \<and> (e = t \<or> content_of t q = Some e)))))"
  using assms
proof (induction ts arbitrary: q)
  case Nil
  show ?case by simp
next
  case (Cons t ts)
  show ?case
  proof (cases "t = tab")
    case True
    from Cons.prems have "\<forall>t \<in> set ts. content_of t q \<noteq> None" by simp
    from Cons.IH [OF this] True show ?thesis by simp
  next
    case False
    from Cons.prems obtain oc where oc: "content_of t q = Some oc" by auto
    define q1 where "q1 = remove_class oc ''active'' (remove_class t ''active'' q)"
    have same: "\<And>t'. content_of t' q1 = content_of t' q"
      by (simp add: q1_def content_of_remove_class)
    have "\<forall>t \<in> set ts. content_of t q1 \<noteq> None"
      using Cons.prems by (simp add: same)
    from Cons.IH [OF this] obtain r where r: "close_others tab ts q1 = Returned r"
      "r = q1\<lparr>classList := classList r\<rparr>"
      "\<forall>e c. (c \<in> classList r e) =
              (c \<in> classList q1 e \<and>
               \<not> (c = ''active'' \<and> (\<exists>t \<in> set ts. t \<noteq> tab \<and> (e = t \<or> content_of t q1 = Some e))))"
      by blast
    have 1: "close_others tab (t # ts) q = Returned r"
      using close_others_step [OF False oc] r(1) by (simp add: q1_def)
    have 2: "r = q\<lparr>classList := classList r\<rparr>"
      by (subst r(2), subst (2) r(2)) (simp add: q1_def remove_class_def)
    have q1c: "\<And>e c. (c \<in> classList q1 e) =
        (c \<in> classList q e \<and> \<not> (c = ''active'' \<and> (e = t \<or> e = oc)))"
      by (auto simp: q1_def remove_class_def cl_remove_mem)
    have 3: "\<forall>e c. (c \<in> classList r e) =
              (c \<in> classList q e \<and>
               \<not> (c = ''active'' \<and> (\<exists>t' \<in> set (t # ts). t' \<noteq> tab \<and> (e = t' \<or> content_of t' q = Some e))))"
      using r(3) False oc by (auto simp: same q1c)
    from 1 2 3 show ?thesis by blast
  qed
qed

lemma tabs_paired_iff:
  "tabs_paired p =
     (\<forall>t \<in> set (serviceTabs p). \<exists>c. content_of t p = Some c \<and> c \<notin> set (serviceTabs p))"
  by (auto simp: tabs_paired_def list_all_iff split: option.splits)

lemma active_tabs_iff:
  "(t \<in> active_tabs p) = (t \<in> set (serviceTabs p) \<and> ''active'' \<in> classList p t)"
  by (auto simp: active_tabs_def cl_contains_def)

lemma tab_panels_iff:
  "(c \<in> set (tab_panels p)) = (\<exists>t \<in> set (serviceTabs p). content_of t p = Some c)"
proof
  assume "c \<in> set (tab_panels p)"
  then show "\<exists>t \<in> set (serviceTabs p). content_of t p = Some c"
    by (auto simp: tab_panels_def split: option.splits)
next
  assume "\<exists>t \<in> set (serviceTabs p). content_of t p = Some c"
  then obtain t where "t \<in> set (serviceTabs p)" "content_of t p = Some c" by blast
  then show "c \<in> set (tab_panels p)"
    by (force simp: tab_panels_def)
qed

lemma active_panels_iff:
  "(c \<in> active_panels p) =
     ((\<exists>t \<in> set (serviceTabs p). content_of t p = Some c) \<and> ''active'' \<in> classList p c)"
  by (simp add: active_panels_def tab_panels_iff cl_contains_def)

lemma tab_click_narrow:
  "\<not> isDesktop p \<Longrightarrow> content_of tab p = Some c \<Longrightarrow>
   tab_click tab p = handleMobileTab tab (Some c) p"
  by (auto simp: tab_click_def content_of_def split: option.splits)

lemma narrow_click:
  assumes l: "listening p" and n: "\<not> isDesktop p" and w: "tabs_paired p"
    and t: "tab \<in> set (serviceTabs p)"
  shows "\<exists>p' c. handle (Click tab) p = Returned p' \<and> content_of tab p = Some c
    \<and> active_tabs p' = (if cl_contains tab ''active'' (classList p) then {} else {tab})
    \<and> active_panels p' = (if cl_contains tab ''active'' (classList p) then {} else {c})
    \<and> listening p' \<and> \<not> isDesktop p' \<and> tabs_paired p' \<and> serviceTabs p' = serviceTabs p
    \<and> (\<forall>t. content_of t p' = content_of t p)"
proof -
  from w t obtain c where c: "content_of tab p = Some c" "c \<notin> set (serviceTabs p)"
    by (auto simp: tabs_paired_iff)
  have "\<forall>t \<in> set (serviceTabs p). content_of t p \<noteq> None"
    using w by (auto simp: tabs_paired_iff)
  from close_others_returns [OF this, of tab] obtain r where
    r: "close_others tab (serviceTabs p) p = Returned r" "r = p\<lparr>classList := classList r\<rparr>"
    and rc: "\<And>e x. (x \<in> classList r e) =
              (x \<in> classList p e \<and>
               \<not> (x = ''active'' \<and>
                  (\<exists>t \<in> set (serviceTabs p). t \<noteq> tab \<and> (e = t \<or> content_of t p = Some e))))"
    by blast
  define isOpening where "isOpening = (\<not> cl_contains tab ''active'' (classList p))"
  define p' where "p' = (if isOpening
      then triggerAnimations c (add_class c ''active'' (add_class tab ''active'' r))
      else remove_class c ''active'' (remove_class tab ''active'' r))"
  have click: "handle (Click tab) p = Returned p'"
    using l t n c(1) r(1)
    by (simp add: tab_click_narrow handleMobileTab_def p'_def isOpening_def Let_def)
  have cr: "\<And>t'. content_of t' r = content_of t' p"
    by (subst r(2)) (simp add: content_of_classes rc)
  have same: "\<And>t'. content_of t' p' = content_of t' p"
    by (simp add: p'_def content_of_triggerAnimations content_of_add_class
          content_of_remove_class cr)
  have r1: "serviceTabs r = serviceTabs p" by (subst r(2)) simp
  have r2: "isDesktop r = isDesktop p" by (subst r(2)) simp
  have r3: "listening r = listening p" by (subst r(2)) simp
  have fields: "serviceTabs p' = serviceTabs p" "isDesktop p' = isDesktop p"
    "listening p' = listening p"
    by (simp_all add: p'_def triggerAnimations_def setTimeout_def add_class_def
          remove_class_def r1 r2 r3)
  have act: "\<And>e. (''active'' \<in> classList p' e) =
      (if isOpening then e = tab \<or> e = c \<or> ''active'' \<in> classList r e
       else e \<noteq> tab \<and> e \<noteq> c \<and> ''active'' \<in> classList r e)"
    by (auto simp: p'_def triggerAnimations_def setTimeout_def add_class_def remove_class_def
          cl_add_mem cl_remove_mem)
  have tabs: "active_tabs p' = (if isOpening then {tab} else {})"
    using t c by (auto simp: active_tabs_iff fields act rc)
  have panels: "active_panels p' = (if isOpening then {c} else {})"
  proof (intro set_eqI iffI)
    fix x assume "x \<in> active_panels p'"
    then obtain t' where t': "t' \<in> set (serviceTabs p)" "content_of t' p = Some x"
      and a: "''active'' \<in> classList p' x"
      by (auto simp: active_panels_iff fields same)
    have "x \<noteq> tab" using w t t' by (auto simp: tabs_paired_iff)
    moreover have "x \<noteq> c \<Longrightarrow> ''active'' \<notin> classList r x"
    proof -
      assume "x \<noteq> c"
      with t' c(1) have "t' \<noteq> tab" by auto
      with t' have "\<exists>t \<in> set (serviceTabs p). t \<noteq> tab \<and> (x = t \<or> content_of t p = Some x)"
        by blast
      then show ?thesis by (simp add: rc)
    qed
    ultimately show "x \<in> (if isOpening then {c} else {})"
      using a by (auto simp: act split: if_splits)
  next
    fix x assume "x \<in> (if isOpening then {c} else {})"
    then have "isOpening" "x = c" by (auto split: if_splits)
    then show "x \<in> active_panels p'"
      using t c(1) by (auto simp: active_panels_iff fields same act)
  qed
  have paired: "tabs_paired p'"
    using w by (simp add: tabs_paired_iff fields same)
  show ?thesis
    using click c(1) tabs panels paired l n same
    by (auto simp: fields isOpening_def)
qed

lemma run_append: "run (xs @ ys) p = run ys (run xs p)"
  by (induction xs arbitrary: p) simp_all

lemma narrow_clicks_keep:
  assumes "listening p" and "\<not> isDesktop p" and "tabs_paired p"
    and "set clicked \<subseteq> set (serviceTabs p)"
  shows "listening (run (map Click clicked) p) \<and> \<not> isDesktop (run (map Click clicked) p)
     \<and> tabs_paired (run (map Click clicked) p)
     \<and> serviceTabs (run (map Click clicked) p) = serviceTabs p
     \<and> (\<forall>t. content_of t (run (map Click clicked) p) = content_of t p)"
  using assms
proof (induction clicked arbitrary: p)
  case Nil
  then show ?case by simp
next
  case (Cons a clicked)
  from Cons.prems have a: "a \<in> set (serviceTabs p)" by simp
  from narrow_click [OF Cons.prems(1-3) a] obtain p' where
    p': "handle (Click a) p = Returned p'" "listening p'" "\<not> isDesktop p'" "tabs_paired p'"
      "serviceTabs p' = serviceTabs p" "\<forall>t. content_of t p' = content_of t p"
    by blast
  have "set clicked \<subseteq> set (serviceTabs p')" using Cons.prems(4) p'(5) by simp
  from Cons.IH [OF p'(2-4) this] p'(1,5,6) show ?case by simp
qed

text \<open>
  Claim C3.  In narrow mode, on a page where every tab has its content panel, take any
  sequence of tab clicks followed by a click on a tab.  The last click returns normally.
  If the clicked tab was closed, it opens: afterwards it is the only active tab and its
  panel the only active panel, every other tab and panel having been deactivated.  If the
  clicked tab was open, it closes and nothing else opens: no tab and no panel is active.
  Either way at most one tab and at most one panel are active.
\<close>

theorem accordion_one_active_pair:
  assumes "listening p" and "\<not> isDesktop p" and "tabs_paired p"
    and "set clicked \<subseteq> set (serviceTabs p)" and "tab \<in> set (serviceTabs p)"
  shows "\<exists>c. content_of tab p = Some c
     \<and> handle (Click tab) (run (map Click clicked) p)
         = Returned (run (map Click (clicked @ [tab])) p)
     \<and> active_tabs (run (map Click (clicked @ [tab])) p)
         = (if cl_contains tab ''active'' (classList (run (map Click clicked) p))
            then {} else {tab})
     \<and> active_panels (run (map Click (clicked @ [tab])) p)
         = (if cl_contains tab ''active'' (classList (run (map Click clicked) p))
            then {} else {c})
     \<and> card (active_tabs (run (map Click (clicked @ [tab])) p)) \<le> 1
     \<and> card (active_panels (run (map Click (clicked @ [tab])) p)) \<le> 1"
proof -
  let ?q = "run (map Click clicked) p"
  note k = narrow_clicks_keep [OF assms(1-4)]
  have t: "tab \<in> set (serviceTabs ?q)" using k assms(5) by simp
  from k have "listening ?q" "\<not> isDesktop ?q" "tabs_paired ?q" by simp_all
  from narrow_click [OF this t] obtain p' c where
    p': "handle (Click tab) ?q = Returned p'" "content_of tab ?q = Some c"
      "active_tabs p' = (if cl_contains tab ''active'' (classList ?q) then {} else {tab})"
      "active_panels p' = (if cl_contains tab ''active'' (classList ?q) then {} else {c})"
    by blast
  have r: "run (map Click (clicked @ [tab])) p = p'"
    using p'(1) by (simp add: run_append)
  have c: "content_of tab p = Some c" using p'(2) k by simp
  have one: "card (active_tabs p') \<le> 1" "card (active_panels p') \<le> 1"
    by (simp_all add: p'(3,4))
  show ?thesis
    unfolding r using p'(1,3,4) c one by blast
qed

lemma sample_ready:
  "listening (run [DOMContentLoaded] sample_page)"
  "\<not> isDesktop (run [DOMContentLoaded] sample_page)"
  "tabs_paired (run [DOMContentLoaded] sample_page)"
  "serviceTabs (run [DOMContentLoaded] sample_page) = [22, 32]"
  by code_simp+

lemma sample_clicks:
  "\<not> cl_contains 32 ''active'' (classList (run (map Click [22]) (run [DOMContentLoaded] sample_page)))"
  "cl_contains 32 ''active'' (classList (run (map Click [22, 32]) (run [DOMContentLoaded] sample_page)))"
  "content_of 32 (run [DOMContentLoaded] sample_page) = Some 33"
  by code_simp+

theorem accordion_one_active_pair_witness:
  "listening (run [DOMContentLoaded] sample_page)
   \<and> \<not> isDesktop (run [DOMContentLoaded] sample_page)
   \<and> tabs_paired (run [DOMContentLoaded] sample_page)
   \<and> serviceTabs (run [DOMContentLoaded] sample_page) = [22, 32]
   \<and> active_tabs (run (map Click ([22] @ [32])) (run [DOMContentLoaded] sample_page)) = {32}
   \<and> active_panels (run (map Click ([22] @ [32])) (run [DOMContentLoaded] sample_page)) = {33}
   \<and> active_tabs (run (map Click ([22, 32] @ [32])) (run [DOMContentLoaded] sample_page)) = {}
   \<and> active_panels (run (map Click ([22, 32] @ [32])) (run [DOMContentLoaded] sample_page)) = {}"
  using accordion_one_active_pair [of "run [DOMContentLoaded] sample_page" "[22]" 32]
        accordion_one_active_pair [of "run [DOMContentLoaded] sample_page" "[22, 32]" 32]
        sample_ready sample_clicks
  by (simp del: run.simps)

section \<open>Services tabs: the stored mode and the debounced resize\<close>

lemma cloneNode_flag:
  "isDesktop (snd (cloneNode t p)) = isDesktop p" "listening (snd (cloneNode t p)) = listening p"
  "desktopContentArea (snd (cloneNode t p)) = desktopContentArea p"
  by (simp_all add: cloneNode_def Let_def)

lemma node_ops_flag:
  "isDesktop (clear_children a p) = isDesktop p" "listening (clear_children a p) = listening p"
  "isDesktop (appendChild a c p) = isDesktop p" "listening (appendChild a c p) = listening p"
  "isDesktop (remove_elem x p) = isDesktop p" "listening (remove_elem x p) = listening p"
  "isDesktop (add_class x cl p) = isDesktop p" "listening (add_class x cl p) = listening p"
  "isDesktop (remove_class x cl p) = isDesktop p" "listening (remove_class x cl p) = listening p"
  "isDesktop (triggerAnimations x p) = isDesktop p" "listening (triggerAnimations x p) = listening p"
  by (simp_all add: clear_children_def appendChild_def remove_elem_def add_class_def
        remove_class_def triggerAnimations_def setTimeout_def Let_def)

lemma handleDesktopTab_flag:
  "isDesktop (state_of (handleDesktopTab tab targetTab p)) = isDesktop p
   \<and> listening (state_of (handleDesktopTab tab targetTab p)) = listening p"
  by (simp add: handleDesktopTab_def Let_def split_def cloneNode_flag node_ops_flag
        split: option.splits sum.splits)

lemma close_others_flag:
  "isDesktop (state_of (close_others tab ts p)) = isDesktop p
   \<and> listening (state_of (close_others tab ts p)) = listening p"
  by (induction ts arbitrary: p) (simp_all add: Let_def node_ops_flag split: option.splits)

lemma and_then_state:
  "(\<And>q. P (state_of (f q)) = P q) \<Longrightarrow> P (state_of (and_then r f)) = P (state_of r)"
  by (cases r) simp_all

lemma handleMobileTab_flag:
  "isDesktop (state_of (handleMobileTab tab content p)) = isDesktop p
   \<and> listening (state_of (handleMobileTab tab content p)) = listening p"
proof -
  have "isDesktop (state_of (handleMobileTab tab content p))
          = isDesktop (state_of (close_others tab (serviceTabs p) p))"
    unfolding handleMobileTab_def Let_def
    by (rule and_then_state) (simp add: node_ops_flag split: option.splits)
  moreover have "listening (state_of (handleMobileTab tab content p))
          = listening (state_of (close_others tab (serviceTabs p) p))"
    unfolding handleMobileTab_def Let_def
    by (rule and_then_state) (simp add: node_ops_flag split: option.splits)
  ultimately show ?thesis by (simp add: close_others_flag)
qed

lemma tab_click_flag:
  "isDesktop (state_of (tab_click tab p)) = isDesktop p
   \<and> listening (state_of (tab_click tab p)) = listening p"
  by (simp add: tab_click_def Let_def handleDesktopTab_flag handleMobileTab_flag
        split: option.splits)

lemma tabs_resize_flag:
  "isDesktop (tabs_resize p) = isDesktop p \<and> listening (tabs_resize p) = listening p"
  by (simp add: tabs_resize_def setTimeout_def clearTimeout_def Let_def split: option.splits)

lemma preload_onload_flag:
  "isDesktop (preload_onload p) = isDesktop p \<and> listening (preload_onload p) = listening p"
  by (simp add: preload_onload_def setTimeout_def Let_def split: option.splits)

lemma run_task_flag:
  "k \<noteq> ResizeCheck \<Longrightarrow>
   isDesktop (state_of (run_task k p)) = isDesktop p
   \<and> listening (state_of (run_task k p)) = listening p"
  by (cases k) (simp_all add: node_ops_flag run_TriggerAnimations_def initial_animations_def
        show_in_view_def Let_def split: option.splits)

lemma quiet_event_flag:
  assumes "ev \<noteq> DOMContentLoaded" and "\<not> fires_resize_check ev p"
  shows "isDesktop (state_of (handle ev p)) = isDesktop p
     \<and> listening (state_of (handle ev p)) = listening p"
proof (cases ev)
  case Fire
  show ?thesis
  proof (cases "earliest (timers p)")
    case None
    with Fire show ?thesis by (simp add: fire_def)
  next
    case (Some t)
    with Fire assms(2) have "snd (snd t) \<noteq> ResizeCheck" by simp
    from run_task_flag [OF this] Fire Some show ?thesis by (simp add: fire_def)
  qed
qed (use assms in \<open>simp_all add: tab_click_flag tabs_resize_flag preload_onload_flag Let_def\<close>)

lemma before_debounce_flag:
  "before_debounce evs p \<Longrightarrow>
   isDesktop (run evs p) = isDesktop p \<and> listening (run evs p) = listening p"
proof (induction evs arbitrary: p)
  case Nil
  show ?case by simp
next
  case (Cons ev evs)
  from Cons.prems have q: "ev \<noteq> DOMContentLoaded" "\<not> fires_resize_check ev p"
    and rest: "before_debounce evs (state_of (handle ev p))" by simp_all
  from Cons.IH [OF rest] quiet_event_flag [OF q] show ?case by simp
qed

lemma handleLayout_flag:
  "isDesktop (state_of (handleLayout p)) = (innerWidth p \<ge> 768)"
  by (simp add: handleLayout_def Let_def split_def cloneNode_flag node_ops_flag
        split: option.splits)

lemma resize_check_flag:
  "isDesktop (state_of (run_task ResizeCheck p)) = (innerWidth p \<ge> 768)"
  by (simp add: resize_check_def Let_def handleLayout_flag)

lemma resize_listener:
  "listening p \<Longrightarrow>
   handle (Resize w) p =
     Returned (p\<lparr>timers := timers (clearTimeout (resizeTimer p) p) @
                           [(nextTimer p, now p + 250, ResizeCheck)],
                nextTimer := Suc (nextTimer p),
                innerWidth := w,
                resizeTimer := Some (nextTimer p)\<rparr>)"
  by (simp add: tabs_resize_def setTimeout_def clearTimeout_def Let_def split: option.splits)

lemma click_dispatch:
  "listening q \<Longrightarrow> tab \<in> set (serviceTabs q) \<Longrightarrow>
   closest ''services-tab-container'' tab q = Some k \<Longrightarrow>
   handle (Click tab) q =
     (if isDesktop q then handleDesktopTab tab (dataTab q tab) q
      else handleMobileTab tab (querySelector_in k ''services-tab-content'' q) q)"
  by (simp add: tab_click_def Let_def)

text \<open>
  Claim C10.  The resize listener only records the new width and schedules the check
  250ms ahead (cancelling the one it scheduled before); it leaves the stored mode flag
  \<open>isDesktop\<close> as it is.  Through every sequence of later events that does not run
  that check (clicks, further resizes, time passing, other timers) the flag keeps the
  value it had before the resize, and a tab click is dispatched on that stored value,
  to \<open>handleDesktopTab\<close> or to \<open>handleMobileTab\<close>, whatever the live width is.
  Only when the check runs does the flag become \<open>innerWidth \<ge> 768\<close>.
\<close>

theorem click_follows_stored_mode:
  assumes "listening p" and "before_debounce evs (state_of (handle (Resize w) p))"
  shows "innerWidth (state_of (handle (Resize w) p)) = w
     \<and> isDesktop (state_of (handle (Resize w) p)) = isDesktop p
     \<and> timers (state_of (handle (Resize w) p)) =
         timers (clearTimeout (resizeTimer p) p) @ [(nextTimer p, now p + 250, ResizeCheck)]
     \<and> isDesktop (run (Resize w # evs) p) = isDesktop p
     \<and> (tab \<in> set (serviceTabs (run (Resize w # evs) p)) \<and>
        closest ''services-tab-container'' tab (run (Resize w # evs) p) = Some k \<longrightarrow>
          handle (Click tab) (run (Resize w # evs) p) =
            (if isDesktop p
             then handleDesktopTab tab (dataTab (run (Resize w # evs) p) tab)
                    (run (Resize w # evs) p)
             else handleMobileTab tab
                    (querySelector_in k ''services-tab-content'' (run (Resize w # evs) p))
                    (run (Resize w # evs) p)))
     \<and> isDesktop (state_of (run_task ResizeCheck (run (Resize w # evs) p)))
         = (innerWidth (run (Resize w # evs) p) \<ge> 768)"
proof -
  let ?p1 = "state_of (handle (Resize w) p)"
  let ?q = "run (Resize w # evs) p"
  have p1: "?p1 = p\<lparr>timers := timers (clearTimeout (resizeTimer p) p) @
                           [(nextTimer p, now p + 250, ResizeCheck)],
                nextTimer := Suc (nextTimer p),
                innerWidth := w,
                resizeTimer := Some (nextTimer p)\<rparr>"
    using resize_listener [OF assms(1), of w] by simp
  have a: "innerWidth ?p1 = w" "isDesktop ?p1 = isDesktop p" "listening ?p1"
    "timers ?p1 = timers (clearTimeout (resizeTimer p) p) @ [(nextTimer p, now p + 250, ResizeCheck)]"
    using assms(1) resize_listener [OF assms(1), of w] by (simp_all del: handle.simps)
  have q: "?q = run evs ?p1" by simp
  have b: "isDesktop ?q = isDesktop p" "listening ?q"
    using before_debounce_flag [OF assms(2)] a by (simp_all only: q)
  have c: "tab \<in> set (serviceTabs ?q) \<and> closest ''services-tab-container'' tab ?q = Some k \<longrightarrow>
          handle (Click tab) ?q =
            (if isDesktop p then handleDesktopTab tab (dataTab ?q tab) ?q
             else handleMobileTab tab (querySelector_in k ''services-tab-content'' ?q) ?q)"
    using click_dispatch [OF b(2), of tab k] b(1) by auto
  show ?thesis
    using a b(1) c resize_check_flag [of ?q] by blast
qed

lemma sample_resized:
  "listening (run [DOMContentLoaded] sample_page)"
  "\<not> isDesktop (run [DOMContentLoaded] sample_page)"
  "before_debounce [Click 22, Fire]
     (state_of (handle (Resize 1024) (run [DOMContentLoaded] sample_page)))"
  "32 \<in> set (serviceTabs (run (Resize 1024 # [Click 22, Fire]) (run [DOMContentLoaded] sample_page)))"
  "closest ''services-tab-container'' 32
     (run (Resize 1024 # [Click 22, Fire]) (run [DOMContentLoaded] sample_page)) = Some 31"
  "querySelector_in 31 ''services-tab-content''
     (run (Resize 1024 # [Click 22, Fire]) (run [DOMContentLoaded] sample_page)) = Some 33"
  "innerWidth (run (Resize 1024 # [Click 22, Fire]) (run [DOMContentLoaded] sample_page)) = 1024"
  by code_simp+

theorem click_follows_stored_mode_witness:
  "listening (run [DOMContentLoaded] sample_page)
   \<and> before_debounce [Click 22, Fire]
        (state_of (handle (Resize 1024) (run [DOMContentLoaded] sample_page)))
   \<and> innerWidth (run (Resize 1024 # [Click 22, Fire]) (run [DOMContentLoaded] sample_page)) = 1024
   \<and> \<not> isDesktop (run (Resize 1024 # [Click 22, Fire]) (run [DOMContentLoaded] sample_page))
   \<and> handle (Click 32) (run (Resize 1024 # [Click 22, Fire]) (run [DOMContentLoaded] sample_page))
       = handleMobileTab 32 (Some 33)
           (run (Resize 1024 # [Click 22, Fire]) (run [DOMContentLoaded] sample_page))
   \<and> isDesktop (state_of (run_task ResizeCheck
         (run (Resize 1024 # [Click 22, Fire]) (run [DOMContentLoaded] sample_page))))"
  using click_follows_stored_mode [of "run [DOMContentLoaded] sample_page" "[Click 22, Fire]" 1024 32 31]
        sample_resized
  by (simp del: run.simps handle.simps run_task.simps)

end
